theory Spec2Isabelle
  imports Main "HOL-Library.AList"
begin

section \<open>Strings as the source sees them\<close>

text \<open>
  The extension is TypeScript; its strings are modelled as \<^typ>\<open>string\<close>, the list of the
  code units of the string, each below 256. The helpers below are the string primitives
  of the JavaScript library that the parser calls, written out as recursive functions:
  \<^verbatim>\<open>split\<close> on a one-character separator, \<^verbatim>\<open>trim\<close>, \<^verbatim>\<open>includes\<close>, and the three regular
  expressions \<^verbatim>\<open>/^\d/\<close>, \<^verbatim>\<open>/^\d+$/\<close> and \<^verbatim>\<open>/\d+/\<close>. The white space and line terminators
  that \<^verbatim>\<open>trim\<close> removes are, below 256, the tabulator, line feed, vertical tabulator, form
  feed, carriage return, space and no-break space (U+00A0).
  \<^verbatim>\<open>Number\<close> of a digit string is its decimal value as a natural number: the rounding of
  a double beyond \<open>2 ^ 53\<close> is not part of the model.
\<close>

definition isSpace :: "char \<Rightarrow> bool" where
  "isSpace c \<longleftrightarrow>
     c \<in> {CHR 0x09, CHR 0x0A, CHR 0x0B, CHR 0x0C, CHR 0x0D, CHR 0x20, CHR 0xA0}"

definition isDigit :: "char \<Rightarrow> bool" where
  "isDigit c \<longleftrightarrow> (48::nat) \<le> of_char c \<and> of_char c \<le> (57::nat)"

definition trim :: "string \<Rightarrow> string" where
  "trim s = rev (dropWhile isSpace (rev (dropWhile isSpace s)))"

text \<open>\<^verbatim>\<open>s.split(sep)\<close> for a one-character separator: never empty, \<^verbatim>\<open>''.split(sep)\<close> is \<^verbatim>\<open>['']\<close>.\<close>

fun splitOn :: "char \<Rightarrow> string \<Rightarrow> string list" where
  "splitOn sep [] = [[]]"
| "splitOn sep (c # cs) =
     (if c = sep then [] # splitOn sep cs
      else (case splitOn sep cs of [] \<Rightarrow> [[c]] | p # ps \<Rightarrow> (c # p) # ps))"

text \<open>\<^verbatim>\<open>xs.map((v) => v.trim()).filter(Boolean)\<close>: an empty string is falsy.\<close>

definition trimmedNonEmpty :: "string list \<Rightarrow> string list" where
  "trimmedNonEmpty xs = filter (\<lambda>s. s \<noteq> []) (map trim xs)"

fun startsWith :: "string \<Rightarrow> string \<Rightarrow> bool" where
  "startsWith [] s = True"
| "startsWith (p # ps) [] = False"
| "startsWith (p # ps) (c # cs) = (p = c \<and> startsWith ps cs)"

text \<open>\<^verbatim>\<open>s.includes(sub)\<close>; the first argument is the substring searched for.\<close>

fun strIncludes :: "string \<Rightarrow> string \<Rightarrow> bool" where
  "strIncludes sub [] = (sub = [])"
| "strIncludes sub (c # cs) = (startsWith sub (c # cs) \<or> strIncludes sub cs)"

text \<open>\<^verbatim>\<open>/^\d+$/.test(s)\<close>\<close>

definition allDigits :: "string \<Rightarrow> bool" where
  "allDigits s \<longleftrightarrow> s \<noteq> [] \<and> list_all isDigit s"

definition digitVal :: "char \<Rightarrow> nat" where
  "digitVal c = of_char c - 48"

text \<open>\<^verbatim>\<open>Number(s)\<close> for a string of decimal digits.\<close>

definition digitsToNat :: "string \<Rightarrow> nat" where
  "digitsToNat s = foldl (\<lambda>acc c. 10 * acc + digitVal c) 0 s"

text \<open>
  \<^verbatim>\<open>function parseNumericField(value) { const match = value.match(/\d+/);
  if (!match) return 0; return Number(match[0]) || 0; }\<close>
\<close>

definition parseNumericField :: "string \<Rightarrow> nat" where
  "parseNumericField v =
     (let m = takeWhile isDigit (dropWhile (\<lambda>c. \<not> isDigit c) v)
      in if m = [] then 0 else digitsToNat m)"

text \<open>
  \<^verbatim>\<open>token.replace(/\(.*?\)/g, '')\<close>: every leftmost, shortest parenthesised group is
  removed. The dot does not match a line terminator, so a group is only found when the
  first closing parenthesis after the opening one comes before any line break.
\<close>

fun closeParen :: "string \<Rightarrow> string option" where
  "closeParen [] = None"
| "closeParen (c # cs) =
     (if c = CHR '')'' then Some cs
      else if c = CHR 0x0A \<or> c = CHR 0x0D then None
      else closeParen cs)"

lemma closeParen_shorter: "closeParen cs = Some r \<Longrightarrow> length r < length cs"
  by (induction cs) (auto split: if_splits intro: less_SucI)

function stripParens :: "string \<Rightarrow> string" where
  "stripParens [] = []"
| "stripParens (c # cs) =
     (if c = CHR ''(''
      then (case closeParen cs of
              Some rest \<Rightarrow> stripParens rest
            | None \<Rightarrow> c # stripParens cs)
      else c # stripParens cs)"
  by pat_completeness auto
termination
  by (relation "measure length") (auto dest: closeParen_shorter)

section \<open>GRES descriptors\<close>

text \<open>
  \<^verbatim>\<open>parseGresInfo\<close> returns an object \<^verbatim>\<open>{ gpuMax: number; gpuTypes: Record<string, number> }\<close>.
  \<^verbatim>\<open>PartitionInfo\<close> has the same two fields and five more, so it is modelled as an
  extension of the record of the two.

  The \<^verbatim>\<open>Record<string, number>\<close> is a plain object, created as \<^verbatim>\<open>{}\<close> and used as a
  dictionary. Its own properties are an association list, in insertion order; a value
  stored in it is a number or \<^verbatim>\<open>NaN\<close>. A read \<^verbatim>\<open>obj[key]\<close> gives the own property where
  there is one, and otherwise goes to the prototype of the object: for the twelve names of
  \<^verbatim>\<open>Object.prototype\<close> it gives a function (for \<^verbatim>\<open>__proto__\<close> the prototype itself), and
  for any other key \<^verbatim>\<open>undefined\<close>. In \<^verbatim>\<open>Math.max(obj[key] || 0, count)\<close> an own number
  stands for itself, an own \<^verbatim>\<open>NaN\<close>, an own 0 and \<^verbatim>\<open>undefined\<close> are falsy and give 0, and
  an inherited function or object is truthy and converts to \<^verbatim>\<open>NaN\<close>; the maximum is
  \<^verbatim>\<open>NaN\<close> when an argument is. A write \<^verbatim>\<open>obj[key] = v\<close> sets the own property, but for
  \<^verbatim>\<open>__proto__\<close> it calls the inherited setter, which ignores a number.
\<close>

datatype jsnum = Num nat | NaN

datatype jsval = Missing | Own jsnum | FromPrototype

record GresInfo =
  gpuMax :: nat
  gpuTypes :: "(string \<times> jsnum) list"

definition inheritedNames :: "string list" where
  "inheritedNames =
     [''constructor'', ''__defineGetter__'', ''__defineSetter__'', ''hasOwnProperty'',
      ''__lookupGetter__'', ''__lookupSetter__'', ''isPrototypeOf'', ''propertyIsEnumerable'',
      ''toString'', ''valueOf'', ''__proto__'', ''toLocaleString'']"

text \<open>\<^verbatim>\<open>obj[key]\<close>\<close>

definition readProp :: "(string \<times> jsnum) list \<Rightarrow> string \<Rightarrow> jsval" where
  "readProp obj key =
     (case map_of obj key of
        Some v \<Rightarrow> Own v
      | None \<Rightarrow> if key \<in> set inheritedNames then FromPrototype else Missing)"

text \<open>The number that \<^verbatim>\<open>Math.max\<close> makes of its argument \<^verbatim>\<open>v || 0\<close>.\<close>

definition orZero :: "jsval \<Rightarrow> jsnum" where
  "orZero v =
     (case v of
        Missing \<Rightarrow> Num 0
      | Own NaN \<Rightarrow> Num 0
      | Own (Num n) \<Rightarrow> Num n
      | FromPrototype \<Rightarrow> NaN)"

text \<open>\<^verbatim>\<open>Math.max(a, b)\<close> of two numbers\<close>

definition jsMax :: "jsnum \<Rightarrow> jsnum \<Rightarrow> jsnum" where
  "jsMax a b =
     (case a of
        NaN \<Rightarrow> NaN
      | Num m \<Rightarrow> (case b of NaN \<Rightarrow> NaN | Num n \<Rightarrow> Num (max m n)))"

text \<open>\<^verbatim>\<open>obj[key] = v\<close>\<close>

definition writeProp :: "(string \<times> jsnum) list \<Rightarrow> string \<Rightarrow> jsnum \<Rightarrow> (string \<times> jsnum) list" where
  "writeProp obj key v = (if key = ''__proto__'' then obj else AList.update key v obj)"

definition gresParts :: "string \<Rightarrow> string list" where
  "gresParts token = trimmedNonEmpty (splitOn (CHR '':'') (stripParens token))"

text \<open>
  The body of the loop over the tokens up to the \<^verbatim>\<open>count <= 0\<close> test: the type label and
  the count of one token, or \<open>None\<close> where the source says \<^verbatim>\<open>continue\<close>.
\<close>

definition gresToken :: "string \<Rightarrow> (string \<times> nat) option" where
  "gresToken token =
     (if \<not> strIncludes ''gpu'' token then None
      else let parts = gresParts token in
        if length parts = 0 \<or> parts ! 0 \<noteq> ''gpu'' then None
        else let (type, count) =
                   (if length parts = 2
                    then (if allDigits (parts ! 1) then ('''', digitsToNat (parts ! 1))
                          else (parts ! 1, 0))
                    else if length parts \<ge> 3
                    then (parts ! 1, if allDigits (parts ! 2) then digitsToNat (parts ! 2) else 0)
                    else ('''', 0))
             in if count \<le> 0 then None else Some (type, count))"

text \<open>
  The rest of the loop body: \<^verbatim>\<open>result.gpuMax = Math.max(result.gpuMax, count);
  const existing = result.gpuTypes[key] || 0; result.gpuTypes[key] = Math.max(existing, count)\<close>.
\<close>

definition gresStep :: "GresInfo \<Rightarrow> string \<Rightarrow> GresInfo" where
  "gresStep result token =
     (case gresToken token of
        None \<Rightarrow> result
      | Some (type, count) \<Rightarrow>
          result\<lparr> gpuMax := max (gpuMax result) count,
                  gpuTypes := writeProp (gpuTypes result) type
                                (jsMax (orZero (readProp (gpuTypes result) type)) (Num count)) \<rparr>)"

definition parseGresInfo :: "string \<Rightarrow> GresInfo" where
  "parseGresInfo raw =
     (let result = \<lparr> gpuMax = 0, gpuTypes = [] \<rparr> in
      if raw = [] then result
      else foldl gresStep result (trimmedNonEmpty (splitOn (CHR '','') raw)))"

section \<open>Partition reports\<close>

text \<open>
  \<^verbatim>\<open>interface PartitionInfo { name; nodes; cpus; memMb; gpuMax; gpuTypes; isDefault }\<close> and
  \<^verbatim>\<open>interface ClusterInfo { partitions: PartitionInfo[]; defaultPartition?: string }\<close>.
\<close>

record PartitionInfo = GresInfo +
  name :: string
  nodes :: nat
  cpus :: nat
  memMb :: nat
  isDefault :: bool

record ClusterInfo =
  partitions :: "PartitionInfo list"
  defaultPartition :: "string option"

text \<open>
  The constants that \<^verbatim>\<open>parsePartitionInfoOutput\<close> computes from one line before it loops
  over the partition names of the line: \<^verbatim>\<open>nodeName\<close>, \<^verbatim>\<open>nodesCount\<close>, \<^verbatim>\<open>cpus\<close>,
  \<^verbatim>\<open>memMb\<close> and \<^verbatim>\<open>gresInfo\<close>.
\<close>

record LineValues =
  nodeName :: "string option"
  nodesCount :: nat
  lineCpus :: nat
  lineMemMb :: nat
  gresInfo :: GresInfo

text \<open>
  The mutable state of the parser: the \<^verbatim>\<open>Map\<close> of partitions (in insertion order), the
  \<^verbatim>\<open>Map\<close> of the sets of node names, and \<^verbatim>\<open>defaultPartition\<close>.
\<close>

record ParseState =
  partitionMap :: "(string \<times> PartitionInfo) list"
  nodeSets :: "(string \<times> string list) list"
  defaultName :: "string option"

text \<open>\<^verbatim>\<open>output.split(/\r?\n/)\<close>\<close>

fun splitLinesAux :: "string \<Rightarrow> string \<Rightarrow> string list" where
  "splitLinesAux cur [] = [rev cur]"
| "splitLinesAux cur [c] =
     (if c = CHR 0x0A then [rev cur, []] else [rev (c # cur)])"
| "splitLinesAux cur (c # d # rest) =
     (if c = CHR 0x0D \<and> d = CHR 0x0A then rev cur # splitLinesAux [] rest
      else if c = CHR 0x0A then rev cur # splitLinesAux [] (d # rest)
      else splitLinesAux (c # cur) (d # rest))"

definition splitLines :: "string \<Rightarrow> string list" where
  "splitLines output = splitLinesAux [] output"

text \<open>\<^verbatim>\<open>fields[i] || ''\<close>: a read past the end of the array is \<^verbatim>\<open>undefined\<close>, hence \<^verbatim>\<open>''\<close>.\<close>

definition fieldAt :: "string list \<Rightarrow> nat \<Rightarrow> string" where
  "fieldAt cols i = (if i < length cols then cols ! i else [])"

text \<open>A string or \<^verbatim>\<open>undefined\<close> used as a condition: true for a non-empty string only.\<close>

definition truthy :: "string option \<Rightarrow> bool" where
  "truthy v = (case v of None \<Rightarrow> False | Some s \<Rightarrow> s \<noteq> [])"

text \<open>\<^verbatim>\<open>partitionName.replace(/\*/g, '')\<close> and \<^verbatim>\<open>partitionName.includes('*')\<close>\<close>

definition cleanName :: "string \<Rightarrow> string" where
  "cleanName partitionName = filter (\<lambda>c. c \<noteq> CHR ''*'') partitionName"

definition hasStar :: "string \<Rightarrow> bool" where
  "hasStar partitionName \<longleftrightarrow> CHR ''*'' \<in> set partitionName"

text \<open>
  The part of the loop body before the loop over the names: the fields of the line (here
  \<open>cols\<close>), the two tests that skip a line, and the values of the line with its list of names.
\<close>

definition parseLine :: "string \<Rightarrow> (LineValues \<times> string list) option" where
  "parseLine line =
     (let cols = map trim (splitOn (CHR ''|'') line) in
      if length cols < 3 then None
      else
        let rawName = cols ! 0;
            field1 = fieldAt cols 1;
            field2 = fieldAt cols 2;
            field3 = fieldAt cols 3;
            field4 = fieldAt cols 4
        in if rawName = [] then None
           else
             let isField1Numeric = (case field1 of [] \<Rightarrow> False | c # _ \<Rightarrow> isDigit c);
                 values =
                   \<lparr> nodeName = (if \<not> isField1Numeric \<and> field1 \<noteq> [] then Some field1 else None),
                     nodesCount = (if isField1Numeric then parseNumericField field1 else 0),
                     lineCpus = parseNumericField
                       (if CHR ''/'' \<in> set field2 then last (splitOn (CHR ''/'') field2)
                        else field2),
                     lineMemMb = parseNumericField field3,
                     gresInfo = parseGresInfo field4 \<rparr>
             in Some (values, trimmedNonEmpty (splitOn (CHR '','') rawName)))"

text \<open>
  \<^verbatim>\<open>for (const [type, count] of Object.entries(gresInfo.gpuTypes)) { const current =
  existing.gpuTypes[type] || 0; existing.gpuTypes[type] = Math.max(current, count); }\<close>
  The entries are the own properties of the object.
\<close>

definition mergeGpuTypes ::
  "(string \<times> jsnum) list \<Rightarrow> (string \<times> jsnum) list \<Rightarrow> (string \<times> jsnum) list" where
  "mergeGpuTypes existing entries =
     foldl (\<lambda>acc (type, count). writeProp acc type (jsMax (orZero (readProp acc type)) count))
       existing entries"

definition freshPartition :: "string \<Rightarrow> bool \<Rightarrow> PartitionInfo" where
  "freshPartition nm isDef =
     \<lparr> gpuMax = 0, gpuTypes = [], name = nm, nodes = 0, cpus = 0, memMb = 0,
       isDefault = isDef \<rparr>"

text \<open>The body of the loop over the partition names of one line.\<close>

definition processName :: "LineValues \<Rightarrow> ParseState \<Rightarrow> string \<Rightarrow> ParseState" where
  "processName v st partitionName =
     (let isDef = hasStar partitionName;
          nm = cleanName partitionName;
          dflt = (if isDef \<and> \<not> truthy (defaultName st) then Some nm else defaultName st);
          existing = (case map_of (partitionMap st) nm of
                        Some p \<Rightarrow> p
                      | None \<Rightarrow> freshPartition nm isDef);
          sets = (case nodeName v of
                    Some n \<Rightarrow>
                      if n \<noteq> []
                      then AList.update nm
                             (List.insert n (case map_of (nodeSets st) nm of
                                               Some s \<Rightarrow> s | None \<Rightarrow> []))
                             (nodeSets st)
                      else nodeSets st
                  | None \<Rightarrow> nodeSets st);
          counted = (if truthy (nodeName v) then existing
                     else if nodesCount v \<noteq> 0
                     then existing\<lparr> nodes := max (nodes existing) (nodesCount v) \<rparr>
                     else existing);
          merged = counted
            \<lparr> cpus := max (cpus counted) (lineCpus v),
              memMb := max (memMb counted) (lineMemMb v),
              gpuMax := max (gpuMax counted) (gpuMax (gresInfo v)),
              gpuTypes := mergeGpuTypes (gpuTypes counted) (gpuTypes (gresInfo v)),
              isDefault := (isDefault counted \<or> isDef) \<rparr>
      in \<lparr> partitionMap = AList.update nm merged (partitionMap st),
           nodeSets = sets,
           defaultName = dflt \<rparr>)"

definition processLine :: "ParseState \<Rightarrow> string \<Rightarrow> ParseState" where
  "processLine st line =
     (case parseLine line of
        None \<Rightarrow> st
      | Some (v, partitionNames) \<Rightarrow> foldl (processName v) st partitionNames)"

text \<open>
  \<^verbatim>\<open>for (const [name, info] of partitions) { const set = nodeSets.get(name);
  if (set && set.size > 0) info.nodes = set.size; }\<close>
\<close>

definition applyNodeSet :: "(string \<times> string list) list \<Rightarrow> string \<times> PartitionInfo \<Rightarrow> PartitionInfo" where
  "applyNodeSet sets entry =
     (case map_of sets (fst entry) of
        Some s \<Rightarrow> if length s > 0 then (snd entry)\<lparr> nodes := length s \<rparr> else snd entry
      | None \<Rightarrow> snd entry)"

text \<open>
  \<^verbatim>\<open>list.sort((a, b) => a.name.localeCompare(b.name))\<close>. The collation of
  \<^verbatim>\<open>localeCompare\<close> belongs to the runtime and its locale, so it is a parameter: \<open>le a b\<close>
  stands for \<^verbatim>\<open>a.localeCompare(b) <= 0\<close>. The sort of the runtime is stable, as this
  insertion sort is.
\<close>

fun insertByName :: "(string \<Rightarrow> string \<Rightarrow> bool) \<Rightarrow> PartitionInfo \<Rightarrow> PartitionInfo list \<Rightarrow> PartitionInfo list" where
  "insertByName le x [] = [x]"
| "insertByName le x (y # ys) =
     (if le (name x) (name y) then x # y # ys else y # insertByName le x ys)"

definition sortByName :: "(string \<Rightarrow> string \<Rightarrow> bool) \<Rightarrow> PartitionInfo list \<Rightarrow> PartitionInfo list" where
  "sortByName le xs = foldr (insertByName le) xs []"

definition initialState :: ParseState where
  "initialState = \<lparr> partitionMap = [], nodeSets = [], defaultName = None \<rparr>"

text \<open>The parser after the report has been cut into its trimmed, non-empty lines.\<close>

definition parseLines :: "(string \<Rightarrow> string \<Rightarrow> bool) \<Rightarrow> string list \<Rightarrow> ClusterInfo" where
  "parseLines le lines =
     (let st = foldl processLine initialState lines
      in \<lparr> partitions = sortByName le (map (applyNodeSet (nodeSets st)) (partitionMap st)),
           defaultPartition = defaultName st \<rparr>)"

definition reportLines :: "string \<Rightarrow> string list" where
  "reportLines output = trimmedNonEmpty (splitLines output)"

definition parsePartitionInfoOutput :: "(string \<Rightarrow> string \<Rightarrow> bool) \<Rightarrow> string \<Rightarrow> ClusterInfo" where
  "parsePartitionInfoOutput le output = parseLines le (reportLines output)"

section \<open>Fetching the cluster information\<close>

text \<open>
  \<^verbatim>\<open>runSshCommand(loginHost, cfg, command)\<close> runs \<^verbatim>\<open>ssh\<close> and returns the trimmed standard
  output, or throws. It is the boundary to the remote host: in the model it is a function
  \<open>run\<close> to the error thrown or the output returned.
\<close>

datatype error = ExecError string | IoError string

definition sinfoPerNode :: string where
  "sinfoPerNode = ''sinfo -h -N -o '' @ [CHR 0x22] @ ''%P|%n|%c|%m|%G'' @ [CHR 0x22]"

definition sinfoPerPartition :: string where
  "sinfoPerPartition = ''sinfo -h -o '' @ [CHR 0x22] @ ''%P|%D|%c|%m|%G'' @ [CHR 0x22]"

text \<open>
  \<^verbatim>\<open>function hasMeaningfulClusterInfo(info) { if (!info.partitions || info.partitions.length === 0)
  return false; return info.partitions.some((p) => p.cpus > 0 || p.memMb > 0 || p.gpuMax > 0); }\<close>
\<close>

definition hasMeaningfulClusterInfo :: "ClusterInfo \<Rightarrow> bool" where
  "hasMeaningfulClusterInfo info =
     (if length (partitions info) = 0 then False
      else list_ex (\<lambda>partition. cpus partition > 0 \<or> memMb partition > 0 \<or> gpuMax partition > 0)
             (partitions info))"

definition getMaxFieldCount :: "string \<Rightarrow> nat" where
  "getMaxFieldCount output =
     foldl (\<lambda>mx line. let count = length (splitOn (CHR ''|'') line)
                       in if count > mx then count else mx)
       0 (filter (\<lambda>line. length (trim line) > 0) (splitLines output))"

text \<open>
  The loop of \<^verbatim>\<open>fetchClusterInfo\<close> over the candidate commands, with \<^verbatim>\<open>lastInfo\<close> as its
  state. \<^verbatim>\<open>runSshCommand\<close> is called once for each entry of the list, and what the remote
  host answers may differ from call to call, also for the same command: \<open>run i command\<close>
  is the error thrown or the output returned by the call for the entry at position \<open>i\<close>.
  The call stands in no \<^verbatim>\<open>try\<close> block, so an error it throws leaves the loop and the
  function.
\<close>

fun fetchLoop ::
  "(string \<Rightarrow> string \<Rightarrow> bool) \<Rightarrow> (nat \<Rightarrow> string \<Rightarrow> error + string) \<Rightarrow> nat \<Rightarrow> ClusterInfo
     \<Rightarrow> string list \<Rightarrow> error + ClusterInfo" where
  "fetchLoop le run i lastInfo [] = Inr lastInfo"
| "fetchLoop le run i lastInfo (command # rest) =
     (case run i command of
        Inl e \<Rightarrow> Inl e
      | Inr output \<Rightarrow>
          let info = parsePartitionInfoOutput le output;
              maxFields = getMaxFieldCount output;
              outputHasGpu = strIncludes ''gpu:'' output;
              hasGpu = list_ex (\<lambda>partition. gpuMax partition > 0) (partitions info)
          in if outputHasGpu \<and> \<not> hasGpu then fetchLoop le run (Suc i) info rest
             else if maxFields < 5 then fetchLoop le run (Suc i) info rest
             else if hasMeaningfulClusterInfo info then Inr info
             else fetchLoop le run (Suc i) info rest)"

section \<open>The configuration\<close>

text \<open>
  \<^verbatim>\<open>interface SciamaConfig\<close>, field by field. Numbers are integers. The field
  \<^verbatim>\<open>defaultPartition\<close> of the configuration is \<open>defaultPartitionName\<close> here, since
  \<^verbatim>\<open>ClusterInfo\<close> has a field of that name too. \<^verbatim>\<open>additionalSshOptions\<close> is an object
  used as a dictionary: an association list.
\<close>

record SciamaConfig =
  loginHosts :: "string list"
  loginHostsCommand :: string
  loginHostsQueryHost :: string
  partitionCommand :: string
  partitionInfoCommand :: string
  qosCommand :: string
  accountCommand :: string
  user :: string
  identityFile :: string
  forwardAgent :: bool
  requestTTY :: bool
  moduleLoad :: string
  proxyCommand :: string
  proxyArgs :: "string list"
  extraSallocArgs :: "string list"
  promptForExtraSallocArgs :: bool
  defaultPartitionName :: string
  defaultNodes :: int
  defaultTasksPerNode :: int
  defaultCpusPerTask :: int
  defaultTime :: string
  defaultMemoryMb :: int
  defaultGpuType :: string
  defaultGpuCount :: int
  sshHostPrefix :: string
  connectAfterCreate :: bool
  openInNewWindow :: bool
  remoteWorkspacePath :: string
  temporarySshConfigPath :: string
  restoreSshConfigAfterConnect :: bool
  additionalSshOptions :: "(string \<times> string) list"
  sshQueryConfigPath :: string
  sshConnectTimeoutSeconds :: int

definition candidateCommands :: "SciamaConfig \<Rightarrow> string list" where
  "candidateCommands cfg =
     filter (\<lambda>c. c \<noteq> []) [partitionInfoCommand cfg, sinfoPerNode, sinfoPerPartition]"

definition fetchClusterInfo ::
  "(string \<Rightarrow> string \<Rightarrow> bool) \<Rightarrow> (nat \<Rightarrow> string \<Rightarrow> error + string) \<Rightarrow> SciamaConfig
     \<Rightarrow> error + ClusterInfo" where
  "fetchClusterInfo le run cfg =
     fetchLoop le run 0 \<lparr> partitions = [], defaultPartition = None \<rparr> (candidateCommands cfg)"

section \<open>The launch command\<close>

text \<open>A number in a template string: its decimal digits, with a minus sign below zero.\<close>

function showNat :: "nat \<Rightarrow> string" where
  "showNat n =
     (if n < 10 then [char_of (48 + n)]
      else showNat (n div 10) @ [char_of (48 + n mod 10)])"
  by pat_completeness auto
termination
  by (relation "measure id") auto

declare showNat.simps [simp del]

definition showInt :: "int \<Rightarrow> string" where
  "showInt i = (if i < 0 then CHR ''-'' # showNat (nat (- i)) else showNat (nat i))"

text \<open>\<^verbatim>\<open>xs.join(sep)\<close>\<close>

fun joinWith :: "string \<Rightarrow> string list \<Rightarrow> string" where
  "joinWith sep [] = []"
| "joinWith sep [x] = x"
| "joinWith sep (x # y # ys) = x @ sep @ joinWith sep (y # ys)"

text \<open>
  The argument object of \<^verbatim>\<open>buildSallocArgs\<close>. Its optional fields are options; the field
  \<^verbatim>\<open>nodes\<close> is \<open>nodesArg\<close> here, since \<^verbatim>\<open>PartitionInfo\<close> has a field \<^verbatim>\<open>nodes\<close>.
\<close>

record SallocParams =
  partition :: "string option"
  nodesArg :: int
  tasksPerNode :: int
  cpusPerTask :: int
  time :: string
  memoryMb :: "int option"
  gpuType :: "string option"
  gpuCount :: "int option"
  qos :: "string option"
  account :: "string option"

text \<open>An optional number used as a condition: \<^verbatim>\<open>undefined\<close> and 0 are falsy.\<close>

definition positiveNum :: "int option \<Rightarrow> bool" where
  "positiveNum v = (case v of None \<Rightarrow> False | Some n \<Rightarrow> n \<noteq> 0 \<and> n > 0)"

definition buildSallocArgs :: "SallocParams \<Rightarrow> string list" where
  "buildSallocArgs params =
     (if truthy (partition params) then [''--partition='' @ the (partition params)] else []) @
     [''--nodes='' @ showInt (nodesArg params),
      ''--ntasks-per-node='' @ showInt (tasksPerNode params),
      ''--cpus-per-task='' @ showInt (cpusPerTask params),
      ''--time='' @ time params] @
     (if truthy (qos params) then [''--qos='' @ the (qos params)] else []) @
     (if truthy (account params) then [''--account='' @ the (account params)] else []) @
     (if positiveNum (memoryMb params)
      then [''--mem='' @ showInt (the (memoryMb params))] else []) @
     (if positiveNum (gpuCount params)
      then (let type = (if truthy (gpuType params) then trim (the (gpuType params)) else []);
                gres = (if type \<noteq> []
                        then ''gpu:'' @ type @ '':'' @ showInt (the (gpuCount params))
                        else ''gpu:'' @ showInt (the (gpuCount params)))
            in [''--gres='' @ gres])
      else [])"

definition buildRemoteCommand :: "SciamaConfig \<Rightarrow> string list \<Rightarrow> string" where
  "buildRemoteCommand cfg sallocArgs =
     (let proxyParts = proxyCommand cfg # filter (\<lambda>a. a \<noteq> []) (proxyArgs cfg);
          proxyCmd = trim (joinWith '' '' (filter (\<lambda>a. a \<noteq> []) proxyParts))
      in if proxyCmd = [] then []
         else
           let sallocFlags = map (\<lambda>arg. ''--salloc-arg='' @ arg) sallocArgs;
               fullProxyCommand = trim (joinWith '' '' (proxyCmd # sallocFlags))
           in if moduleLoad cfg \<noteq> []
              then trim (moduleLoad cfg @ '' && '' @ fullProxyCommand)
              else fullProxyCommand)"

text \<open>
  The selection that \<^verbatim>\<open>connectCommand\<close> has made when it builds the command: the argument of
  \<^verbatim>\<open>buildSallocArgs\<close> and the extra arguments of the session. The command is
  \<^verbatim>\<open>buildRemoteCommand(cfg, [...sallocArgs, ...cfg.extraSallocArgs, ...extraArgs])\<close>.
\<close>

definition launchCommand :: "SciamaConfig \<Rightarrow> SallocParams \<Rightarrow> string list \<Rightarrow> string" where
  "launchCommand cfg params extraArgs =
     buildRemoteCommand cfg (buildSallocArgs params @ extraSallocArgs cfg @ extraArgs)"

definition aliasChar :: "char \<Rightarrow> bool" where
  "aliasChar c \<longleftrightarrow>
     ((97::nat) \<le> of_char c \<and> of_char c \<le> (122::nat)) \<or>
     ((65::nat) \<le> of_char c \<and> of_char c \<le> (90::nat)) \<or>
     isDigit c \<or> c = CHR ''_'' \<or> c = CHR ''-''"

definition buildDefaultAlias :: "string \<Rightarrow> string \<Rightarrow> string option \<Rightarrow> int \<Rightarrow> int \<Rightarrow> string" where
  "buildDefaultAlias prefix loginHost part nodeCount cpuCount =
     (let hostShort = hd (splitOn (CHR ''.'') loginHost);
          pieces = [if prefix \<noteq> [] then prefix else ''sciama'', hostShort] @
                   (if truthy part then [the part] else []) @
                   [showInt nodeCount @ ''n'', showInt cpuCount @ ''c'']
      in map (\<lambda>c. if aliasChar c then c else CHR ''-'') (joinWith ''-'' pieces))"

section \<open>The host entry and the temporary configuration file\<close>

text \<open>
  \<^verbatim>\<open>Object.keys(cfg.additionalSshOptions || {}).sort()\<close>: the default sort compares the
  code units of the keys.
\<close>

fun codeUnitLe :: "string \<Rightarrow> string \<Rightarrow> bool" where
  "codeUnitLe [] s = True"
| "codeUnitLe (a # as) [] = False"
| "codeUnitLe (a # as) (b # bs) =
     ((of_char a :: nat) < of_char b \<or> (a = b \<and> codeUnitLe as bs))"

fun insertKey :: "string \<Rightarrow> string list \<Rightarrow> string list" where
  "insertKey k [] = [k]"
| "insertKey k (y # ys) = (if codeUnitLe k y then k # y # ys else y # insertKey k ys)"

definition sortedKeys :: "(string \<times> string) list \<Rightarrow> string list" where
  "sortedKeys obj = foldr insertKey (remdups (map fst obj)) []"

text \<open>
  \<^verbatim>\<open>buildHostEntry\<close>. The time stamp \<^verbatim>\<open>new Date().toISOString()\<close> is the argument \<open>now\<close>.
  Every value is put after its directive as it is.
\<close>

definition buildHostEntry :: "string \<Rightarrow> string \<Rightarrow> string \<Rightarrow> SciamaConfig \<Rightarrow> string \<Rightarrow> string" where
  "buildHostEntry now alias loginHost cfg remoteCommand =
     (let ls =
        [''# Generated by Sciama Slurm Connect on '' @ now,
         ''Host '' @ alias,
         ''  HostName '' @ loginHost] @
        (if user cfg \<noteq> [] then [''  User '' @ user cfg] else []) @
        (if requestTTY cfg then [''  RequestTTY yes''] else []) @
        (if forwardAgent cfg then [''  ForwardAgent yes''] else []) @
        (if identityFile cfg \<noteq> [] then [''  IdentityFile '' @ identityFile cfg] else []) @
        [''  RemoteCommand '' @ remoteCommand] @
        concat (map (\<lambda>key. case map_of (additionalSshOptions cfg) key of
                               Some v \<Rightarrow> if length v > 0 then [''  '' @ key @ '' '' @ v] else []
                             | None \<Rightarrow> [])
                 (sortedKeys (additionalSshOptions cfg)))
      in joinWith [CHR 0x0A] ls @ [CHR 0x0A])"

text \<open>
  What the extension reads from its host: the home and temporary directories, its storage
  path (unset before activation), and the two functions of the \<^verbatim>\<open>path\<close> module it calls.
\<close>

record Env =
  homedir :: string
  tmpdir :: string
  extensionStoragePath :: "string option"
  pathJoin :: "string \<Rightarrow> string \<Rightarrow> string"
  pathDirname :: "string \<Rightarrow> string"

text \<open>
  The file system: the directories and files that exist, and the paths on which an
  operation fails. \<^verbatim>\<open>fs.mkdir(dir, { recursive: true })\<close> makes \<open>dir\<close> exist;
  \<^verbatim>\<open>fs.writeFile\<close> needs the directory of the file.
\<close>

record FileSystem =
  dirs :: "string set"
  files :: "string \<Rightarrow> string option"
  denied :: "string set"

definition mkdirRecursive :: "string \<Rightarrow> FileSystem \<Rightarrow> error + FileSystem" where
  "mkdirRecursive dir fs =
     (if dir \<in> denied fs then Inl (IoError dir)
      else Inr (fs\<lparr> dirs := insert dir (dirs fs) \<rparr>))"

definition writeFile :: "Env \<Rightarrow> string \<Rightarrow> string \<Rightarrow> FileSystem \<Rightarrow> error + FileSystem" where
  "writeFile env path content fs =
     (if path \<in> denied fs \<or> pathDirname env path \<notin> dirs fs then Inl (IoError path)
      else Inr (fs\<lparr> files := (files fs)(path \<mapsto> content) \<rparr>))"

definition expandHome :: "Env \<Rightarrow> string \<Rightarrow> string" where
  "expandHome env input =
     (if input = [] then input
      else if hd input = CHR ''~'' then pathJoin env (homedir env) (tl input)
      else input)"

definition overlayHeader :: string where
  "overlayHeader = ''# Temporary SSH config generated by Sciama Slurm Connect'' @ [CHR 0x0A]"

definition overlayPath :: "Env \<Rightarrow> SciamaConfig \<Rightarrow> string" where
  "overlayPath env cfg =
     (if temporarySshConfigPath cfg \<noteq> [] then expandHome env (temporarySshConfigPath cfg)
      else pathJoin env
             (if truthy (extensionStoragePath env) then the (extensionStoragePath env)
              else tmpdir env)
             ''sciama-ssh-config'')"

definition writeTemporarySshConfig ::
  "Env \<Rightarrow> string \<Rightarrow> string \<Rightarrow> SciamaConfig \<Rightarrow> FileSystem \<Rightarrow> error + (string \<times> FileSystem)" where
  "writeTemporarySshConfig env alias entry cfg fs =
     (let basePath = overlayPath env cfg;
          dir = pathDirname env basePath
      in case mkdirRecursive dir fs of
           Inl e \<Rightarrow> Inl e
         | Inr fs1 \<Rightarrow>
             (let content = overlayHeader @ entry
              in case writeFile env basePath content fs1 of
                   Inl e \<Rightarrow> Inl e
                 | Inr fs2 \<Rightarrow> Inr (basePath, fs2)))"

section \<open>The connect command without prompts\<close>

text \<open>
  \<^verbatim>\<open>promptTime\<close> accepts \<^verbatim>\<open>/^(\d+-)?\d{1,2}:\d{2}:\d{2}$/\<close>. A run of digits that must be
  followed by a colon or a hyphen is a maximal run, so the expression is decided by
  cutting the leading digits off.
\<close>

definition hmsPattern :: "string \<Rightarrow> bool" where
  "hmsPattern s =
     (let h = takeWhile isDigit s; rest = dropWhile isDigit s
      in (length h = 1 \<or> length h = 2) \<and>
         (case rest of
            [c1, m1, m2, c2, s1, s2] \<Rightarrow>
              c1 = CHR '':'' \<and> isDigit m1 \<and> isDigit m2 \<and> c2 = CHR '':'' \<and> isDigit s1 \<and> isDigit s2
          | _ \<Rightarrow> False))"

definition timePattern :: "string \<Rightarrow> bool" where
  "timePattern s =
     (hmsPattern s \<or>
      (let d = takeWhile isDigit s; rest = dropWhile isDigit s
       in d \<noteq> [] \<and> (case rest of [] \<Rightarrow> False | c # r \<Rightarrow> c = CHR ''-'' \<and> hmsPattern r)))"

text \<open>
  The state that \<^verbatim>\<open>connectCommand\<close> acts on: the file system, the messages shown to the
  user, and the setting \<^verbatim>\<open>remote.SSH.configFile\<close>.
\<close>

record World =
  fileSystem :: FileSystem
  shown :: "string list"
  remoteConfigFile :: string

datatype Outcome = Stopped | Created string string

definition showMessage :: "string \<Rightarrow> World \<Rightarrow> World" where
  "showMessage msg w = w\<lparr> shown := shown w @ [msg] \<rparr>"

definition formatError :: "error \<Rightarrow> string" where
  "formatError e = (case e of ExecError m \<Rightarrow> m | IoError m \<Rightarrow> m)"

text \<open>
  The four tests of \<^verbatim>\<open>connectCommand\<close> on the sizing values when \<^verbatim>\<open>interactive\<close> is
  false, in their order: the message of the first test that fails.
\<close>

definition sizingError :: "int \<Rightarrow> int \<Rightarrow> int \<Rightarrow> string \<Rightarrow> string option" where
  "sizingError nodeCount taskCount cpuCount wallTime =
     (if nodeCount = 0 \<or> nodeCount < 1
      then Some ''Default nodes is not set. Fill it in the side panel or settings.''
      else if taskCount = 0 \<or> taskCount < 1
      then Some ''Default tasks per node is not set. Fill it in the side panel or settings.''
      else if cpuCount = 0 \<or> cpuCount < 1
      then Some ''Default CPUs per task is not set. Fill it in the side panel or settings.''
      else if wallTime = []
      then Some ''Default wall time is not set. Fill it in the side panel or settings.''
      else None)"

text \<open>
  \<^verbatim>\<open>connectCommand(overrides, { interactive: false })\<close>, as the side panel calls it: every
  \<^verbatim>\<open>if (interactive)\<close> takes its other branch, so nothing is asked of the user. The
  configuration \<open>cfg\<close> is the merged one; \<open>hosts\<close> is what \<^verbatim>\<open>resolveLoginHosts\<close> returned,
  \<open>connectOk\<close> what \<^verbatim>\<open>connectToHost\<close> will return, \<open>now\<close> the time stamp. The result is
  \<open>Stopped\<close> where the source returns early, and otherwise the remote command and the path
  of the file written. The lines written to the output channel, the check of the setting
  \<^verbatim>\<open>enableRemoteCommand\<close>, the two delays and the refresh of the host list come after the
  file is written or change nothing of this state, and are left out.
\<close>

definition connectCommand ::
  "Env \<Rightarrow> string \<Rightarrow> string list \<Rightarrow> bool \<Rightarrow> SciamaConfig \<Rightarrow> World \<Rightarrow> Outcome \<times> World" where
  "connectCommand env now hosts connectOk cfg w =
     (if length hosts = 0
      then (Stopped, showMessage
              ''No login hosts available. Configure sciamaSlurm.loginHosts or loginHostsCommand.'' w)
      else
        let loginHost = hosts ! 0 in
        if loginHost = [] then (Stopped, w)
        else
          let part = (if defaultPartitionName cfg \<noteq> [] then Some (defaultPartitionName cfg) else None);
              nodeCount = defaultNodes cfg;
              taskCount = defaultTasksPerNode cfg;
              cpuCount = defaultCpusPerTask cfg;
              wallTime = defaultTime cfg
          in case sizingError nodeCount taskCount cpuCount wallTime of
               Some msg \<Rightarrow> (Stopped, showMessage msg w)
             | None \<Rightarrow>
                 let extraArgs = [];
                     remoteCommand = launchCommand cfg
                       \<lparr> partition = part, nodesArg = nodeCount, tasksPerNode = taskCount,
                         cpusPerTask = cpuCount, time = wallTime,
                         memoryMb = Some (defaultMemoryMb cfg),
                         gpuType = Some (defaultGpuType cfg),
                         gpuCount = Some (defaultGpuCount cfg),
                         qos = None, account = None \<rparr> extraArgs
                 in if remoteCommand = []
                    then (Stopped, showMessage
                            ''RemoteCommand is empty. Check sciamaSlurm.proxyCommand.'' w)
                    else
                      let alias = buildDefaultAlias
                            (if sshHostPrefix cfg \<noteq> [] then sshHostPrefix cfg else ''sciama'')
                            loginHost part nodeCount cpuCount;
                          hostEntry = buildHostEntry now (trim alias) loginHost cfg remoteCommand
                      in case writeTemporarySshConfig env (trim alias) hostEntry cfg (fileSystem w) of
                           Inl e \<Rightarrow>
                             (Stopped, showMessage
                                (''Failed to write temporary SSH config: '' @ formatError e) w)
                         | Inr (tempConfigPath, fs') \<Rightarrow>
                             let previous = remoteConfigFile w;
                                 w1 = w\<lparr> fileSystem := fs', remoteConfigFile := tempConfigPath \<rparr>;
                                 w2 = (if connectAfterCreate cfg
                                       then (if connectOk then w1
                                             else showMessage
                                                    (''SSH host '' @ [CHR 0x22] @ trim alias @ [CHR 0x22] @
                                                     '' created, but auto-connect failed. Use Remote-SSH to connect.'')
                                                    w1)
                                       else showMessage
                                              (''SSH host '' @ [CHR 0x22] @ trim alias @ [CHR 0x22] @
                                               '' created.'') w1);
                                 w3 = (if restoreSshConfigAfterConnect cfg
                                       then w2\<lparr> remoteConfigFile := previous \<rparr> else w2)
                             in (Created remoteCommand tempConfigPath, w3))"

section \<open>Invariants used in the proofs\<close>

text \<open>
  What the parser state holds for one partition name: whether a record exists, its fields
  other than \<open>gpuTypes\<close> (those of a fresh record where none exists), and the list of its
  node names. \<open>contribute\<close> is what one line that names the partition
  does to it; \<open>starred\<close> says whether a list of names flags the partition as the default.
\<close>

record Summary =
  sPresent :: bool
  sCpus :: nat
  sMemMb :: nat
  sGpuMax :: nat
  sDefault :: bool
  sNodes :: nat
  sIds :: "string list"

definition viewOf :: "ParseState \<Rightarrow> string \<Rightarrow> Summary" where
  "viewOf st n =
     (let p = (case map_of (partitionMap st) n of Some p \<Rightarrow> p | None \<Rightarrow> freshPartition n False)
      in \<lparr> sPresent = (map_of (partitionMap st) n \<noteq> None),
           sCpus = cpus p, sMemMb = memMb p, sGpuMax = gpuMax p,
           sDefault = isDefault p, sNodes = nodes p,
           sIds = (case map_of (nodeSets st) n of Some s \<Rightarrow> s | None \<Rightarrow> []) \<rparr>)"

definition contribute :: "LineValues \<Rightarrow> bool \<Rightarrow> Summary \<Rightarrow> Summary" where
  "contribute v star s =
     \<lparr> sPresent = True,
       sCpus = max (sCpus s) (lineCpus v),
       sMemMb = max (sMemMb s) (lineMemMb v),
       sGpuMax = max (sGpuMax s) (gpuMax (gresInfo v)),
       sDefault = (sDefault s \<or> star),
       sNodes = (if truthy (nodeName v) then sNodes s else max (sNodes s) (nodesCount v)),
       sIds = (if truthy (nodeName v) then List.insert (the (nodeName v)) (sIds s) else sIds s) \<rparr>"

definition stateInv :: "ParseState \<Rightarrow> bool" where
  "stateInv st \<longleftrightarrow>
     distinct (map fst (partitionMap st)) \<and>
     (\<forall>e \<in> set (partitionMap st). name (snd e) = fst e)"

definition starred :: "string \<Rightarrow> string list \<Rightarrow> bool" where
  "starred n names = list_ex (\<lambda>pn. cleanName pn = n \<and> hasStar pn) names"

definition emptySummary :: Summary where
  "emptySummary =
     \<lparr> sPresent = False, sCpus = 0, sMemMb = 0, sGpuMax = 0,
       sDefault = False, sNodes = 0, sIds = [] \<rparr>"

definition lineNames :: "string \<Rightarrow> string set" where
  "lineNames line = (case parseLine line of None \<Rightarrow> {} | Some (v, ns) \<Rightarrow> cleanName ` set ns)"

definition nodeIdsOf :: "LineValues \<Rightarrow> string set" where
  "nodeIdsOf v = (if truthy (nodeName v) then {the (nodeName v)} else {})"

text \<open>
  The three tests at the end of the loop body of \<^verbatim>\<open>fetchClusterInfo\<close>, as one predicate of
  the output: the candidate is accepted when the loop returns its result at once.
\<close>

definition accepted :: "(string \<Rightarrow> string \<Rightarrow> bool) \<Rightarrow> string \<Rightarrow> bool" where
  "accepted le output =
     (let info = parsePartitionInfoOutput le output
      in \<not> (strIncludes ''gpu:'' output \<and> \<not> list_ex (\<lambda>partition. gpuMax partition > 0) (partitions info)) \<and>
         \<not> getMaxFieldCount output < 5 \<and>
         hasMeaningfulClusterInfo info)"

text \<open>The configuration that \<^verbatim>\<open>getConfig\<close> returns when no setting is set.\<close>

definition defaultConfig :: SciamaConfig where
  "defaultConfig =
     \<lparr> loginHosts = [], loginHostsCommand = [], loginHostsQueryHost = [],
       partitionCommand = [], partitionInfoCommand = [], qosCommand = [], accountCommand = [],
       user = [], identityFile = [], forwardAgent = True, requestTTY = True, moduleLoad = [],
       proxyCommand = [], proxyArgs = [], extraSallocArgs = [], promptForExtraSallocArgs = False,
       defaultPartitionName = [], defaultNodes = 1, defaultTasksPerNode = 1,
       defaultCpusPerTask = 1, defaultTime = [], defaultMemoryMb = 0, defaultGpuType = [],
       defaultGpuCount = 0, sshHostPrefix = [], connectAfterCreate = True,
       openInNewWindow = False, remoteWorkspacePath = [], temporarySshConfigPath = [],
       restoreSshConfigAfterConnect = True, additionalSshOptions = [], sshQueryConfigPath = [],
       sshConnectTimeoutSeconds = 15 \<rparr>"

text \<open>
  The configuration of the test \<^verbatim>\<open>testBuildHostEntryQuotes\<close> of the repository: an identity
  file and one additional option whose values contain spaces.
\<close>

definition quotesTestConfig :: SciamaConfig where
  "quotesTestConfig =
     defaultConfig\<lparr> user := [], requestTTY := False, forwardAgent := False,
       identityFile := ''/Users/Test User/.ssh/id_rsa'',
       additionalSshOptions := [(''LocalCommand'', ''echo hello world'')] \<rparr>"

text \<open>
  \<^verbatim>\<open>path.join\<close> and \<^verbatim>\<open>path.dirname\<close> for paths without \<^verbatim>\<open>.\<close>, \<^verbatim>\<open>..\<close> or doubled
  slashes, for the examples: one slash between the two parts, and the text before the last
  slash.
\<close>

definition joinSlash :: "string \<Rightarrow> string \<Rightarrow> string" where
  "joinSlash a b = a @ ''/'' @ dropWhile (\<lambda>c. c = CHR ''/'') b"

definition dirnameSlash :: "string \<Rightarrow> string" where
  "dirnameSlash p = rev (tl (dropWhile (\<lambda>c. c \<noteq> CHR ''/'') (rev p)))"

definition exampleEnv :: Env where
  "exampleEnv =
     \<lparr> homedir = ''/home/u'', tmpdir = ''/tmp'', extensionStoragePath = None,
       pathJoin = joinSlash, pathDirname = dirnameSlash \<rparr>"

definition emptyFileSystem :: FileSystem where
  "emptyFileSystem = \<lparr> dirs = {}, files = (\<lambda>p. None), denied = {} \<rparr>"

definition emptyWorld :: World where
  "emptyWorld = \<lparr> fileSystem = emptyFileSystem, shown = [], remoteConfigFile = [] \<rparr>"

section \<open>Properties of the GRES parser\<close>

lemma gresToken_pos: "gresToken tok = Some (ty, n) \<Longrightarrow> 0 < n"
  by (auto simp: gresToken_def Let_def split: if_splits prod.splits)

text \<open>
  Claim C10, on the code. \<open>gpuTypes\<close> is a plain object, so a type label that names a
  property of \<^verbatim>\<open>Object.prototype\<close> is read through the prototype. For \<^verbatim>\<open>gpu:__proto__:4\<close>
  the parser returns \<open>gpuMax\<close> 4 with no GPU type at all, and for \<^verbatim>\<open>gpu:constructor:4\<close> it
  returns \<open>gpuMax\<close> 4 with the one count \<^verbatim>\<open>NaN\<close>: in neither is \<open>gpuMax\<close> the maximum of
  the counts of \<open>gpuTypes\<close>, and in the first \<open>gpuTypes\<close> is empty while \<open>gpuMax\<close> is not 0.
\<close>

theorem inherited_type_label_breaks_gpuMax:
  "parseGresInfo ''gpu:__proto__:4'' = \<lparr> gpuMax = 4, gpuTypes = [] \<rparr> \<and>
   parseGresInfo ''gpu:constructor:4'' = \<lparr> gpuMax = 4, gpuTypes = [(''constructor'', NaN)] \<rparr>"
proof -
  have a: "parseGresInfo ''gpu:__proto__:4'' = \<lparr> gpuMax = 4, gpuTypes = [] \<rparr>"
    by code_simp
  have b: "parseGresInfo ''gpu:constructor:4'' = \<lparr> gpuMax = 4, gpuTypes = [(''constructor'', NaN)] \<rparr>"
    by code_simp
  show ?thesis using a b by simp
qed

lemma gresToken_two:
  assumes "strIncludes ''gpu'' tok" and "gresParts tok = [''gpu'', X]"
  shows "gresToken tok =
     (if allDigits X \<and> 0 < digitsToNat X then Some ('''', digitsToNat X) else None)"
  using assms by (auto simp: gresToken_def Let_def)

lemma gresToken_three:
  assumes "strIncludes ''gpu'' tok" and "gresParts tok = ''gpu'' # ty # c # rest"
  shows "gresToken tok =
     (if allDigits c \<and> 0 < digitsToNat c then Some (ty, digitsToNat c) else None)"
  using assms by (auto simp: gresToken_def Let_def)

text \<open>
  Claim C6. A token whose parts, after the parenthesised groups are removed, are
  \<^verbatim>\<open>gpu\<close> and \<open>X\<close> resolves to the empty type label with count \<open>X\<close> when \<open>X\<close> is all
  digits, and is discarded otherwise; a token with three or more parts takes the second
  part as the type and the third as the count when it is all digits; every token whose
  count is not positive is discarded and leaves the result as it was. The three tokens of
  the specification resolve as it says. The parser is a total function with no error
  value: none of the operations of the source can raise.
\<close>

theorem gresToken_forms:
  "(strIncludes ''gpu'' tok \<and> gresParts tok = [''gpu'', X] \<longrightarrow>
      gresToken tok =
        (if allDigits X \<and> 0 < digitsToNat X then Some ('''', digitsToNat X) else None)) \<and>
   (strIncludes ''gpu'' tok \<and> gresParts tok = ''gpu'' # ty # c # rest \<longrightarrow>
      gresToken tok =
        (if allDigits c \<and> 0 < digitsToNat c then Some (ty, digitsToNat c) else None)) \<and>
   (\<forall>t n. gresToken tok = Some (t, n) \<longrightarrow> 0 < n) \<and>
   (gresToken tok = None \<longrightarrow> gresStep r tok = r) \<and>
   gresParts ''gpu:a100:4(S:0-1)'' = [''gpu'', ''a100'', ''4''] \<and>
   gresToken ''gpu:a100:4(S:0-1)'' = Some (''a100'', 4) \<and>
   gresToken ''gpu:2'' = Some ('''', 2) \<and>
   gresToken ''gpu:a100'' = None \<and>
   parseGresInfo ''gpu:a100:4(S:0-1)'' = \<lparr> gpuMax = 4, gpuTypes = [(''a100'', Num 4)] \<rparr> \<and>
   parseGresInfo ''gpu:2'' = \<lparr> gpuMax = 2, gpuTypes = [('''', Num 2)] \<rparr> \<and>
   parseGresInfo ''gpu:a100'' = \<lparr> gpuMax = 0, gpuTypes = [] \<rparr>"
proof -
  have e0: "gresParts ''gpu:a100:4(S:0-1)'' = [''gpu'', ''a100'', ''4'']" by code_simp
  have e1: "gresToken ''gpu:a100:4(S:0-1)'' = Some (''a100'', 4)" by code_simp
  have e2: "gresToken ''gpu:2'' = Some ('''', 2)" by code_simp
  have e3: "gresToken ''gpu:a100'' = None" by code_simp
  have p1: "parseGresInfo ''gpu:a100:4(S:0-1)'' = \<lparr> gpuMax = 4, gpuTypes = [(''a100'', Num 4)] \<rparr>"
    by code_simp
  have p2: "parseGresInfo ''gpu:2'' = \<lparr> gpuMax = 2, gpuTypes = [('''', Num 2)] \<rparr>" by code_simp
  have p3: "parseGresInfo ''gpu:a100'' = \<lparr> gpuMax = 0, gpuTypes = [] \<rparr>" by code_simp
  have s: "gresToken tok = None \<longrightarrow> gresStep r tok = r" by (simp add: gresStep_def)
  show ?thesis
    using gresToken_two[of tok X] gresToken_three[of tok ty c rest] gresToken_pos[of tok]
      s e0 e1 e2 e3 p1 p2 p3
    by blast
qed

text \<open>The two implications of C6 at the tokens \<^verbatim>\<open>gpu:7\<close> and \<^verbatim>\<open>gpu:v100:x:9\<close>.\<close>

theorem gresToken_forms_witness:
  "strIncludes ''gpu'' ''gpu:7'' \<and> gresParts ''gpu:7'' = [''gpu'', ''7''] \<and>
   gresToken ''gpu:7'' = Some ('''', 7) \<and>
   strIncludes ''gpu'' ''gpu:v100:x:9'' \<and>
   gresParts ''gpu:v100:x:9'' = ''gpu'' # ''v100'' # ''x'' # [''9''] \<and>
   gresToken ''gpu:v100:x:9'' = None \<and>
   gresStep \<lparr> gpuMax = 1, gpuTypes = [('''', Num 1)] \<rparr> ''gpu:v100:x:9'' =
     \<lparr> gpuMax = 1, gpuTypes = [('''', Num 1)] \<rparr>"
proof -
  have h1: "strIncludes ''gpu'' ''gpu:7'' \<and> gresParts ''gpu:7'' = [''gpu'', ''7'']"
    by code_simp
  have d1: "allDigits ''7'' \<and> digitsToNat ''7'' = 7" by code_simp
  have h2: "strIncludes ''gpu'' ''gpu:v100:x:9'' \<and>
            gresParts ''gpu:v100:x:9'' = ''gpu'' # ''v100'' # ''x'' # [''9'']"
    by code_simp
  have d2: "\<not> allDigits ''x''" by code_simp
  note t1 = gresToken_forms[of "''gpu:7''" "''7''" "''v100''" "''x''" "[''9'']"
      "\<lparr> gpuMax = 1, gpuTypes = [('''', Num 1)] \<rparr>"]
  note t2 = gresToken_forms[of "''gpu:v100:x:9''" "''7''" "''v100''" "''x''" "[''9'']"
      "\<lparr> gpuMax = 1, gpuTypes = [('''', Num 1)] \<rparr>"]
  have r1: "gresToken ''gpu:7'' = Some ('''', 7)" using t1 h1 d1 by simp
  have r2: "gresToken ''gpu:v100:x:9'' = None" using t2 h2 d2 by simp
  have r3: "gresStep \<lparr> gpuMax = 1, gpuTypes = [('''', Num 1)] \<rparr> ''gpu:v100:x:9'' =
     \<lparr> gpuMax = 1, gpuTypes = [('''', Num 1)] \<rparr>" using t2 r2 by blast
  show ?thesis using h1 h2 r1 r2 r3 by blast
qed

section \<open>Properties of the partition parser\<close>

lemma viewOf_processName_other:
  "cleanName pn \<noteq> n \<Longrightarrow> viewOf (processName v st pn) n = viewOf st n"
  by (auto simp: viewOf_def processName_def Let_def update_conv' split: option.splits)

lemma viewOf_processName_same:
  assumes "cleanName pn = n"
  shows "viewOf (processName v st pn) n = contribute v (hasStar pn) (viewOf st n)"
  using assms
  by (auto simp: viewOf_def processName_def Let_def update_conv' contribute_def truthy_def
      freshPartition_def split: option.splits)

lemma contribute_twice:
  "contribute v b (contribute v a s) = contribute v (a \<or> b) s"
  by (auto simp: contribute_def)

lemma starred_in: "starred n names \<Longrightarrow> n \<in> cleanName ` set names"
  by (auto simp: starred_def list_ex_iff)

lemma viewOf_names:
  "viewOf (foldl (processName v) st names) n =
     (if n \<in> cleanName ` set names then contribute v (starred n names) (viewOf st n)
      else viewOf st n)"
proof (induction names arbitrary: st)
  case Nil
  then show ?case by simp
next
  case (Cons pn names)
  let ?st = "processName v st pn"
  have step: "viewOf ?st n =
      (if cleanName pn = n then contribute v (hasStar pn) (viewOf st n) else viewOf st n)"
    using viewOf_processName_same[of pn n v st] viewOf_processName_other[of pn n v st]
    by simp
  have st: "starred n (pn # names) = ((cleanName pn = n \<and> hasStar pn) \<or> starred n names)"
    by (simp add: starred_def)
  show ?case
  proof (cases "cleanName pn = n")
    case True
    then show ?thesis
      using Cons.IH[of ?st] step st starred_in[of n names] by (auto simp: contribute_twice)
  next
    case False
    then show ?thesis
      using Cons.IH[of ?st] step st by auto
  qed
qed

lemma viewOf_processLine:
  "viewOf (processLine st line) n =
     (case parseLine line of
        None \<Rightarrow> viewOf st n
      | Some (v, ns) \<Rightarrow>
          if n \<in> cleanName ` set ns then contribute v (starred n ns) (viewOf st n)
          else viewOf st n)"
proof (cases "parseLine line")
  case None
  then show ?thesis by (simp add: processLine_def)
next
  case (Some r)
  obtain v ns where r: "r = (v, ns)" by (cases r)
  show ?thesis
    using Some r viewOf_names[of v st ns n]
    by (simp add: processLine_def)
qed

lemma viewOf_initial: "viewOf initialState n = emptySummary"
  by (simp add: viewOf_def initialState_def emptySummary_def freshPartition_def)

lemma stateInv_processName: "stateInv st \<Longrightarrow> stateInv (processName v st pn)"
proof -
  assume inv: "stateInv st"
  let ?nm = "cleanName pn"
  have nm: "name (case map_of (partitionMap st) ?nm of Some p \<Rightarrow> p
                   | None \<Rightarrow> freshPartition ?nm (hasStar pn)) = ?nm"
  proof (cases "map_of (partitionMap st) ?nm")
    case None
    then show ?thesis by (simp add: freshPartition_def)
  next
    case (Some p)
    then have "(?nm, p) \<in> set (partitionMap st)" by (rule map_of_SomeD)
    then show ?thesis using inv Some by (force simp: stateInv_def)
  qed
  have sub: "set (AList.update k x al) \<subseteq> insert (k, x) (set al)" for k and x :: PartitionInfo and al
    by (induction al) auto
  show ?thesis
    unfolding stateInv_def
  proof (intro conjI ballI)
    show "distinct (map fst (partitionMap (processName v st pn)))"
      using inv by (simp add: processName_def Let_def stateInv_def distinct_update)
  next
    fix e assume e: "e \<in> set (partitionMap (processName v st pn))"
    then obtain merged where m: "partitionMap (processName v st pn) = AList.update ?nm merged (partitionMap st)"
      and nmm: "name merged = ?nm"
      using nm by (auto simp: processName_def Let_def)
    from e m sub[of ?nm merged "partitionMap st"] have "e = (?nm, merged) \<or> e \<in> set (partitionMap st)"
      by auto
    then show "name (snd e) = fst e"
      using nmm inv by (auto simp: stateInv_def)
  qed
qed

lemma stateInv_names: "stateInv st \<Longrightarrow> stateInv (foldl (processName v) st names)"
  by (induction names arbitrary: st) (simp_all add: stateInv_processName)

lemma stateInv_processLine: "stateInv st \<Longrightarrow> stateInv (processLine st line)"
  by (auto simp: processLine_def stateInv_names split: option.splits)

lemma stateInv_lines: "stateInv st \<Longrightarrow> stateInv (foldl processLine st lines)"
  by (induction lines arbitrary: st) (simp_all add: stateInv_processLine)

lemma stateInv_initial: "stateInv initialState"
  by (simp add: stateInv_def initialState_def)

lemma set_insertByName: "set (insertByName le x xs) = insert x (set xs)"
  by (induction xs) auto

lemma set_sortByName: "set (sortByName le xs) = set xs"
  unfolding sortByName_def by (induction xs) (simp_all add: set_insertByName)

lemma sorted_insertByName:
  assumes tr: "\<forall>a b c. le a b \<and> le b c \<longrightarrow> le a c" and tot: "\<forall>a b. le a b \<or> le b a"
    and s: "sorted_wrt (\<lambda>p q. le (name p) (name q)) xs"
  shows "sorted_wrt (\<lambda>p q. le (name p) (name q)) (insertByName le x xs)"
  using s
proof (induction xs)
  case Nil
  then show ?case by simp
next
  case (Cons y ys)
  show ?case
  proof (cases "le (name x) (name y)")
    case True
    have "le (name x) (name z)" if z: "z \<in> set ys" for z
    proof -
      have "le (name y) (name z)" using Cons.prems z by simp
      then show ?thesis using True tr by blast
    qed
    then show ?thesis using True Cons.prems by simp
  next
    case False
    then have yx: "le (name y) (name x)" using tot by blast
    have "sorted_wrt (\<lambda>p q. le (name p) (name q)) (insertByName le x ys)"
      using Cons by simp
    moreover have "\<forall>z \<in> set (insertByName le x ys). le (name y) (name z)"
      using yx Cons.prems by (simp add: set_insertByName)
    ultimately show ?thesis using False by simp
  qed
qed

lemma sorted_sortByName:
  assumes "\<forall>a b c. le a b \<and> le b c \<longrightarrow> le a c" and "\<forall>a b. le a b \<or> le b a"
  shows "sorted_wrt (\<lambda>p q. le (name p) (name q)) (sortByName le xs)"
  unfolding sortByName_def
  by (induction xs) (simp_all add: sorted_insertByName[OF assms])

lemma name_applyNodeSet: "name (applyNodeSet sets e) = name (snd e)"
  by (simp add: applyNodeSet_def split: option.splits)

lemma present_processLine:
  "sPresent (viewOf (processLine st line) n) \<longleftrightarrow> sPresent (viewOf st n) \<or> n \<in> lineNames line"
  by (auto simp: viewOf_processLine lineNames_def contribute_def split: option.splits)

lemma present_lines:
  "sPresent (viewOf (foldl processLine st lines) n) \<longleftrightarrow>
     sPresent (viewOf st n) \<or> (\<exists>line \<in> set lines. n \<in> lineNames line)"
  by (induction lines arbitrary: st) (auto simp: present_processLine)

lemma present_keys: "sPresent (viewOf st n) \<longleftrightarrow> n \<in> fst ` set (partitionMap st)"
  by (simp add: viewOf_def Let_def map_of_eq_None_iff)

lemma names_parseLines:
  "name ` set (partitions (parseLines le lines)) = (\<Union>line \<in> set lines. lineNames line)"
proof -
  let ?st = "foldl processLine initialState lines"
  have inv: "stateInv ?st" by (rule stateInv_lines[OF stateInv_initial])
  have "name ` set (partitions (parseLines le lines)) =
        (\<lambda>e. name (snd e)) ` set (partitionMap ?st)"
    by (simp add: parseLines_def Let_def set_sortByName image_image name_applyNodeSet)
  also have "\<dots> = fst ` set (partitionMap ?st)"
    using inv by (auto simp: stateInv_def intro!: image_cong)
  also have "\<dots> = {n. sPresent (viewOf ?st n)}"
    by (auto simp: present_keys)
  also have "\<dots> = (\<Union>line \<in> set lines. lineNames line)"
    by (auto simp: present_lines viewOf_initial emptySummary_def)
  finally show ?thesis .
qed

lemma parseLine_Some_iff:
  "parseLine line \<noteq> None \<longleftrightarrow>
     length (splitOn (CHR ''|'') line) \<ge> 3 \<and> trim (hd (splitOn (CHR ''|'') line)) \<noteq> []"
proof -
  have ne: "splitOn (CHR ''|'') line \<noteq> []" by (cases line) (auto split: list.splits)
  then have "map trim (splitOn (CHR ''|'') line) ! 0 = trim (hd (splitOn (CHR ''|'') line))"
    by (cases "splitOn (CHR ''|'') line") simp_all
  then show ?thesis by (auto simp: parseLine_def Let_def)
qed

lemma codeUnitLe_total: "codeUnitLe a b \<or> codeUnitLe b a"
proof (induction a b rule: codeUnitLe.induct)
  case (3 a as b bs)
  then show ?case
    by (cases "(of_char a :: nat) < of_char b"; cases "(of_char b :: nat) < of_char a")
       (auto simp: linorder_neq_iff[symmetric])
qed simp_all

lemma codeUnitLe_trans: "codeUnitLe a b \<Longrightarrow> codeUnitLe b c \<Longrightarrow> codeUnitLe a c"
proof (induction a arbitrary: b c)
  case Nil
  then show ?case by simp
next
  case (Cons x xs)
  from Cons.prems obtain y ys where b: "b = y # ys" by (cases b) auto
  from Cons.prems b obtain z zs where c: "c = z # zs" by (cases c) auto
  show ?case using Cons.prems Cons.IH[of ys zs] b c by auto
qed

text \<open>
  Claim C8. For every report text the parser returns a list (it is a total function, with
  no error value: a field that is missing reads as the empty string, a field without a
  digit as 0): every line with at least three fields and a non-empty name field is
  parsed, the names of the list are the names of all those lines, without their stars,
  and the list is sorted ascending by name in the order of the comparison that sorts it,
  which is taken to be transitive and total.
\<close>

theorem parsePartitionInfoOutput_total_sorted:
  assumes "\<forall>a b c. le a b \<and> le b c \<longrightarrow> le a c" and "\<forall>a b. le a b \<or> le b a"
  shows "sorted_wrt (\<lambda>p q. le (name p) (name q))
           (partitions (parsePartitionInfoOutput le output)) \<and>
         name ` set (partitions (parsePartitionInfoOutput le output)) =
           (\<Union>line \<in> set (reportLines output). lineNames line) \<and>
         (\<forall>line. parseLine line \<noteq> None \<longleftrightarrow>
            length (splitOn (CHR ''|'') line) \<ge> 3 \<and> trim (hd (splitOn (CHR ''|'') line)) \<noteq> []) \<and>
         (\<forall>s. \<not> list_ex isDigit s \<longrightarrow> parseNumericField s = 0)"
proof -
  have s: "sorted_wrt (\<lambda>p q. le (name p) (name q))
           (partitions (parsePartitionInfoOutput le output))"
    by (simp add: parsePartitionInfoOutput_def parseLines_def Let_def sorted_sortByName[OF assms])
  have n: "name ` set (partitions (parsePartitionInfoOutput le output)) =
           (\<Union>line \<in> set (reportLines output). lineNames line)"
    unfolding parsePartitionInfoOutput_def by (rule names_parseLines)
  have z: "parseNumericField s = 0" if "\<not> list_ex isDigit s" for s
  proof -
    have dw: "dropWhile (\<lambda>c. \<not> isDigit c) s = []" using that by (simp add: list_ex_iff)
    show ?thesis unfolding parseNumericField_def Let_def dw by simp
  qed
  show ?thesis using s n z parseLine_Some_iff by blast
qed

text \<open>A report of two lines, out of order, sorted by the code units of the names.\<close>

theorem parsePartitionInfoOutput_total_sorted_witness:
  "reportLines (''b|1|2'' @ [CHR 0x0A] @ ''a|1|2'') = [''b|1|2'', ''a|1|2''] \<and>
   sorted_wrt (\<lambda>p q. codeUnitLe (name p) (name q))
     (partitions (parsePartitionInfoOutput codeUnitLe (''b|1|2'' @ [CHR 0x0A] @ ''a|1|2''))) \<and>
   parseNumericField ''n/a'' = 0"
proof -
  have tr: "\<forall>a b c. codeUnitLe a b \<and> codeUnitLe b c \<longrightarrow> codeUnitLe a c"
    using codeUnitLe_trans by blast
  have tot: "\<forall>a b. codeUnitLe a b \<or> codeUnitLe b a"
    using codeUnitLe_total by blast
  have l: "reportLines (''b|1|2'' @ [CHR 0x0A] @ ''a|1|2'') = [''b|1|2'', ''a|1|2'']"
    by code_simp
  have d: "\<not> list_ex isDigit ''n/a''" by code_simp
  note t = parsePartitionInfoOutput_total_sorted[OF tr tot, of "''b|1|2'' @ [CHR 0x0A] @ ''a|1|2''"]
  show ?thesis using t l d by blast
qed

lemma viewOf_two_lines:
  assumes l1: "parseLine l1 = Some (v1, ns1)" and l2: "parseLine l2 = Some (v2, ns2)"
    and n1: "n \<in> cleanName ` set ns1" and n2: "n \<in> cleanName ` set ns2"
  shows "viewOf (foldl processLine initialState [l1, l2]) n =
           contribute v2 (starred n ns2) (contribute v1 (starred n ns1) emptySummary)"
  using assms by (simp add: viewOf_processLine viewOf_initial)

lemma final_record:
  assumes inv: "stateInv st" and pres: "sPresent (viewOf st n)"
  shows "\<exists>p. p \<in> set (sortByName le (map (applyNodeSet (nodeSets st)) (partitionMap st))) \<and>
           name p = n \<and>
           (\<forall>q \<in> set (sortByName le (map (applyNodeSet (nodeSets st)) (partitionMap st))).
              name q = n \<longrightarrow> q = p) \<and>
           cpus p = sCpus (viewOf st n) \<and> memMb p = sMemMb (viewOf st n) \<and>
           gpuMax p = sGpuMax (viewOf st n) \<and>
           isDefault p = sDefault (viewOf st n) \<and>
           nodes p = (if sIds (viewOf st n) \<noteq> [] then length (sIds (viewOf st n))
                      else sNodes (viewOf st n))"
proof -
  from pres obtain p0 where p0: "map_of (partitionMap st) n = Some p0"
    by (auto simp: viewOf_def Let_def)
  then have mem: "(n, p0) \<in> set (partitionMap st)" by (rule map_of_SomeD)
  have d: "distinct (map fst (partitionMap st))" using inv by (simp add: stateInv_def)
  have nm: "name p0 = n" using inv mem by (force simp: stateInv_def)
  let ?p = "applyNodeSet (nodeSets st) (n, p0)"
  let ?xs = "sortByName le (map (applyNodeSet (nodeSets st)) (partitionMap st))"
  have in_xs: "?p \<in> set ?xs" using mem by (auto simp: set_sortByName)
  have uniq: "q = ?p" if q: "q \<in> set ?xs" and qn: "name q = n" for q
  proof -
    from q obtain e where e: "e \<in> set (partitionMap st)" and qe: "q = applyNodeSet (nodeSets st) e"
      by (auto simp: set_sortByName)
    have "name (snd e) = fst e" using inv e by (simp add: stateInv_def)
    then have "fst e = n" using qn qe by (simp add: name_applyNodeSet)
    then have "e = (n, snd e)" by (cases e) simp
    then have "map_of (partitionMap st) n = Some (snd e)"
      using e d by (metis map_of_is_SomeI)
    then have "snd e = p0" using p0 by simp
    then show ?thesis using qe \<open>e = (n, snd e)\<close> by simp
  qed
  have fields: "cpus ?p = cpus p0 \<and> memMb ?p = memMb p0 \<and> gpuMax ?p = gpuMax p0 \<and>
      gpuTypes ?p = gpuTypes p0 \<and> isDefault ?p = isDefault p0 \<and> name ?p = name p0"
    by (simp add: applyNodeSet_def split: option.splits)
  have nodes: "nodes ?p = (if sIds (viewOf st n) \<noteq> [] then length (sIds (viewOf st n))
                      else sNodes (viewOf st n))"
    using p0 by (auto simp: applyNodeSet_def viewOf_def Let_def split: option.splits)
  have v: "sCpus (viewOf st n) = cpus p0 \<and> sMemMb (viewOf st n) = memMb p0 \<and>
      sGpuMax (viewOf st n) = gpuMax p0 \<and>
      sDefault (viewOf st n) = isDefault p0"
    using p0 by (simp add: viewOf_def Let_def)
  show ?thesis
  proof (intro exI[of _ ?p] conjI)
    show "?p \<in> set ?xs" by (rule in_xs)
    show "name ?p = n" using fields nm by simp
    show "\<forall>q \<in> set ?xs. name q = n \<longrightarrow> q = ?p" using uniq by blast
    show "cpus ?p = sCpus (viewOf st n)" using fields v by simp
    show "memMb ?p = sMemMb (viewOf st n)" using fields v by simp
    show "gpuMax ?p = sGpuMax (viewOf st n)" using fields v by simp
    show "isDefault ?p = sDefault (viewOf st n)" using fields v by simp
    show "nodes ?p = (if sIds (viewOf st n) \<noteq> [] then length (sIds (viewOf st n))
                      else sNodes (viewOf st n))" by (rule nodes)
  qed
qed

lemma ids_two:
  "(if truthy (nodeName v2) then List.insert (the (nodeName v2)) (if truthy (nodeName v1) then List.insert (the (nodeName v1)) [] else [])
    else (if truthy (nodeName v1) then List.insert (the (nodeName v1)) [] else [])) = ids \<Longrightarrow>
   (ids \<noteq> [] \<longleftrightarrow> nodeIdsOf v1 \<union> nodeIdsOf v2 \<noteq> {}) \<and>
   length ids = card (nodeIdsOf v1 \<union> nodeIdsOf v2)"
  by (auto simp: nodeIdsOf_def List.insert_def split: if_splits)

text \<open>
  Two report lines that both name a partition give one record of that name, whose
  \<open>cpus\<close>, \<open>memMb\<close> and \<open>gpuMax\<close> are the maxima of the values of the two lines, whose
  \<open>isDefault\<close> is the disjunction of the stars of the two lines, and whose node count is
  the number of distinct node names of the two lines when there is one, and the larger of
  the two node counts otherwise.
\<close>

lemma two_lines_merge_scalar_fields:
  assumes "parseLine l1 = Some (v1, ns1)" and "parseLine l2 = Some (v2, ns2)"
    and "n \<in> cleanName ` set ns1" and "n \<in> cleanName ` set ns2"
  shows "\<exists>p. p \<in> set (partitions (parseLines le [l1, l2])) \<and> name p = n \<and>
           (\<forall>q \<in> set (partitions (parseLines le [l1, l2])). name q = n \<longrightarrow> q = p) \<and>
           cpus p = max (lineCpus v1) (lineCpus v2) \<and>
           memMb p = max (lineMemMb v1) (lineMemMb v2) \<and>
           gpuMax p = max (gpuMax (gresInfo v1)) (gpuMax (gresInfo v2)) \<and>
           isDefault p = (starred n ns1 \<or> starred n ns2) \<and>
           nodes p = (if nodeIdsOf v1 \<union> nodeIdsOf v2 \<noteq> {}
                      then card (nodeIdsOf v1 \<union> nodeIdsOf v2)
                      else max (nodesCount v1) (nodesCount v2))"
proof -
  let ?st = "foldl processLine initialState [l1, l2]"
  let ?s = "contribute v2 (starred n ns2) (contribute v1 (starred n ns1) emptySummary)"
  have inv: "stateInv ?st" by (rule stateInv_lines[OF stateInv_initial])
  have view: "viewOf ?st n = ?s" by (rule viewOf_two_lines[OF assms])
  have pres: "sPresent (viewOf ?st n)" unfolding view by (simp add: contribute_def)
  have ids: "(sIds ?s \<noteq> [] \<longleftrightarrow> nodeIdsOf v1 \<union> nodeIdsOf v2 \<noteq> {}) \<and>
             length (sIds ?s) = card (nodeIdsOf v1 \<union> nodeIdsOf v2)"
    by (rule ids_two) (simp add: contribute_def emptySummary_def)
  have nd: "truthy (nodeName v1) \<or> truthy (nodeName v2) \<longleftrightarrow> nodeIdsOf v1 \<union> nodeIdsOf v2 \<noteq> {}"
    by (simp add: nodeIdsOf_def)
  have sn: "nodeIdsOf v1 \<union> nodeIdsOf v2 = {} \<Longrightarrow> sNodes ?s = max (nodesCount v1) (nodesCount v2)"
    using nd by (simp add: contribute_def emptySummary_def)
  have fs: "sCpus ?s = max (lineCpus v1) (lineCpus v2) \<and>
            sMemMb ?s = max (lineMemMb v1) (lineMemMb v2) \<and>
            sGpuMax ?s = max (gpuMax (gresInfo v1)) (gpuMax (gresInfo v2)) \<and>
            sDefault ?s = (starred n ns1 \<or> starred n ns2)"
    by (simp add: contribute_def emptySummary_def)
  from final_record[OF inv pres, of le]
  obtain p where p: "p \<in> set (sortByName le (map (applyNodeSet (nodeSets ?st)) (partitionMap ?st)))"
      "name p = n"
      "\<forall>q \<in> set (sortByName le (map (applyNodeSet (nodeSets ?st)) (partitionMap ?st))). name q = n \<longrightarrow> q = p"
      "cpus p = sCpus (viewOf ?st n)" "memMb p = sMemMb (viewOf ?st n)"
      "gpuMax p = sGpuMax (viewOf ?st n)"
      "isDefault p = sDefault (viewOf ?st n)"
      "nodes p = (if sIds (viewOf ?st n) \<noteq> [] then length (sIds (viewOf ?st n))
                      else sNodes (viewOf ?st n))"
    by blast
  have parts: "partitions (parseLines le [l1, l2]) =
      sortByName le (map (applyNodeSet (nodeSets ?st)) (partitionMap ?st))"
    by (simp add: parseLines_def Let_def)
  have nodes: "nodes p = (if nodeIdsOf v1 \<union> nodeIdsOf v2 \<noteq> {}
                      then card (nodeIdsOf v1 \<union> nodeIdsOf v2)
                      else max (nodesCount v1) (nodesCount v2))"
    using p(8) ids sn unfolding view by (cases "nodeIdsOf v1 \<union> nodeIdsOf v2 = {}") simp_all
  show ?thesis
    unfolding parts
  proof (intro exI[of _ p] conjI)
    show "p \<in> set (sortByName le (map (applyNodeSet (nodeSets ?st)) (partitionMap ?st)))"
      by (rule p(1))
    show "name p = n" by (rule p(2))
    show "\<forall>q \<in> set (sortByName le (map (applyNodeSet (nodeSets ?st)) (partitionMap ?st))).
            name q = n \<longrightarrow> q = p" by (rule p(3))
    show "cpus p = max (lineCpus v1) (lineCpus v2)" using p(4) fs unfolding view by simp
    show "memMb p = max (lineMemMb v1) (lineMemMb v2)" using p(5) fs unfolding view by simp
    show "gpuMax p = max (gpuMax (gresInfo v1)) (gpuMax (gresInfo v2))"
      using p(6) fs unfolding view by simp
    show "isDefault p = (starred n ns1 \<or> starred n ns2)" using p(7) fs unfolding view by simp
    show "nodes p = (if nodeIdsOf v1 \<union> nodeIdsOf v2 \<noteq> {}
                      then card (nodeIdsOf v1 \<union> nodeIdsOf v2)
                      else max (nodesCount v1) (nodesCount v2))" by (rule nodes)
  qed
qed

lemma parseLine_five:
  assumes "map trim (splitOn (CHR ''|'') line) = [a, b, c, d, e]" and "a \<noteq> []"
  shows "parseLine line =
     Some (\<lparr> nodeName = (if \<not> (case b of [] \<Rightarrow> False | x # _ \<Rightarrow> isDigit x) \<and> b \<noteq> [] then Some b else None),
             nodesCount = (if (case b of [] \<Rightarrow> False | x # _ \<Rightarrow> isDigit x) then parseNumericField b else 0),
             lineCpus = parseNumericField
                       (if CHR ''/'' \<in> set c then last (splitOn (CHR ''/'') c) else c),
             lineMemMb = parseNumericField d,
             gresInfo = parseGresInfo e \<rparr>,
           trimmedNonEmpty (splitOn (CHR '','') a))"
  using assms by (simp add: parseLine_def Let_def fieldAt_def)

text \<open>
  Claim C2, on the code. The line \<^verbatim>\<open>gpu*|2gpu-01|64|128000|gpu:a100:4\<close> gives one partition
  \<^verbatim>\<open>gpu\<close> that is the default; its second field starts with a digit, so the parser reads
  it as a node count, the leading number 2, and not as the name of one node.
\<close>

theorem node_name_with_leading_digit:
  "parsePartitionInfoOutput le ''gpu*|2gpu-01|64|128000|gpu:a100:4'' =
     \<lparr> partitions =
         [\<lparr> gpuMax = 4, gpuTypes = [(''a100'', Num 4)], name = ''gpu'', nodes = 2, cpus = 64,
            memMb = 128000, isDefault = True \<rparr>],
       defaultPartition = Some ''gpu'' \<rparr>"
proof -
  let ?l = "''gpu*|2gpu-01|64|128000|gpu:a100:4''"
  let ?v = "\<lparr> nodeName = None, nodesCount = 2, lineCpus = 64, lineMemMb = 128000,
              gresInfo = \<lparr> gpuMax = 4, gpuTypes = [(''a100'', Num 4)] \<rparr> \<rparr>"
  have rl: "reportLines ?l = [?l]" by code_simp
  have c: "map trim (splitOn (CHR ''|'') ?l) = [''gpu*'', ''2gpu-01'', ''64'', ''128000'', ''gpu:a100:4'']"
    by code_simp
  have d: "isDigit (CHR ''2'')" by code_simp
  have num: "parseNumericField ''2gpu-01'' = 2" "parseNumericField ''64'' = 64"
    "parseNumericField ''128000'' = 128000"
    by (simp_all add: parseNumericField_def isDigit_def digitsToNat_def digitVal_def)
  have g: "parseGresInfo ''gpu:a100:4'' = \<lparr> gpuMax = 4, gpuTypes = [(''a100'', Num 4)] \<rparr>"
    by code_simp
  have s: "trimmedNonEmpty [''gpu*''] = [''gpu*'']" by code_simp
  have pl: "parseLine ?l = Some (?v, [''gpu*''])"
    by (simp add: parseLine_five[OF c] s g num d)
  have pn: "processName ?v initialState ''gpu*'' =
     \<lparr> partitionMap = [(''gpu'', \<lparr> gpuMax = 4, gpuTypes = [(''a100'', Num 4)], name = ''gpu'', nodes = 2,
          cpus = 64, memMb = 128000, isDefault = True \<rparr>)],
       nodeSets = [], defaultName = Some ''gpu'' \<rparr>"
    by (simp add: processName_def Let_def initialState_def hasStar_def cleanName_def truthy_def
        freshPartition_def mergeGpuTypes_def readProp_def orZero_def jsMax_def writeProp_def
        inheritedNames_def)
  show ?thesis
    by (simp add: parsePartitionInfoOutput_def rl parseLines_def processLine_def pl pn
        applyNodeSet_def sortByName_def)
qed

text \<open>
  Claim C7, on the code. The two lines \<^verbatim>\<open>p|n1|1|1|gpu:constructor:4,gpu:constructor:5\<close> and
  \<^verbatim>\<open>p|n2|1|1|gpu:constructor:1,gpu:constructor:3\<close> contribute the counts 5 and 3 for the
  GPU type \<^verbatim>\<open>constructor\<close>. The record of the partition is created with an empty
  \<open>gpuTypes\<close>, in which the first line reads the inherited property and stores \<^verbatim>\<open>NaN\<close>; the
  second line reads that as 0 and stores 3. The merged count is 3, not the maximum 5 of
  the two contributions; the other fields are merged as the claim says.
\<close>

theorem inherited_type_label_loses_maximum:
  "parseLine ''p|n1|1|1|gpu:constructor:4,gpu:constructor:5'' =
     Some (\<lparr> nodeName = Some ''n1'', nodesCount = 0, lineCpus = 1, lineMemMb = 1,
            gresInfo = \<lparr> gpuMax = 5, gpuTypes = [(''constructor'', Num 5)] \<rparr> \<rparr>, [''p'']) \<and>
   parseLine ''p|n2|1|1|gpu:constructor:1,gpu:constructor:3'' =
     Some (\<lparr> nodeName = Some ''n2'', nodesCount = 0, lineCpus = 1, lineMemMb = 1,
            gresInfo = \<lparr> gpuMax = 3, gpuTypes = [(''constructor'', Num 3)] \<rparr> \<rparr>, [''p'']) \<and>
   parsePartitionInfoOutput le
     (''p|n1|1|1|gpu:constructor:4,gpu:constructor:5'' @ [CHR 0x0A] @
      ''p|n2|1|1|gpu:constructor:1,gpu:constructor:3'') =
     \<lparr> partitions =
         [\<lparr> gpuMax = 5, gpuTypes = [(''constructor'', Num 3)], name = ''p'', nodes = 2, cpus = 1,
            memMb = 1, isDefault = False \<rparr>],
       defaultPartition = None \<rparr>"
proof -
  let ?l1 = "''p|n1|1|1|gpu:constructor:4,gpu:constructor:5''"
  let ?l2 = "''p|n2|1|1|gpu:constructor:1,gpu:constructor:3''"
  let ?v1 = "\<lparr> nodeName = Some ''n1'', nodesCount = 0, lineCpus = 1, lineMemMb = 1,
            gresInfo = \<lparr> gpuMax = 5, gpuTypes = [(''constructor'', Num 5)] \<rparr> \<rparr>"
  let ?v2 = "\<lparr> nodeName = Some ''n2'', nodesCount = 0, lineCpus = 1, lineMemMb = 1,
            gresInfo = \<lparr> gpuMax = 3, gpuTypes = [(''constructor'', Num 3)] \<rparr> \<rparr>"
  let ?st1 = "\<lparr> partitionMap =
       [(''p'', \<lparr> gpuMax = 5, gpuTypes = [(''constructor'', NaN)], name = ''p'', nodes = 0,
                 cpus = 1, memMb = 1, isDefault = False \<rparr>)],
       nodeSets = [(''p'', [''n1''])], defaultName = None \<rparr>"
  let ?st2 = "\<lparr> partitionMap =
       [(''p'', \<lparr> gpuMax = 5, gpuTypes = [(''constructor'', Num 3)], name = ''p'', nodes = 0,
                 cpus = 1, memMb = 1, isDefault = False \<rparr>)],
       nodeSets = [(''p'', [''n2'', ''n1''])], defaultName = None \<rparr>"
  have rl: "reportLines (?l1 @ [CHR 0x0A] @ ?l2) = [?l1, ?l2]" by code_simp
  have c1: "map trim (splitOn (CHR ''|'') ?l1) =
      [''p'', ''n1'', ''1'', ''1'', ''gpu:constructor:4,gpu:constructor:5'']" by code_simp
  have c2: "map trim (splitOn (CHR ''|'') ?l2) =
      [''p'', ''n2'', ''1'', ''1'', ''gpu:constructor:1,gpu:constructor:3'']" by code_simp
  have g1: "parseGresInfo ''gpu:constructor:4,gpu:constructor:5'' =
      \<lparr> gpuMax = 5, gpuTypes = [(''constructor'', Num 5)] \<rparr>" by code_simp
  have g2: "parseGresInfo ''gpu:constructor:1,gpu:constructor:3'' =
      \<lparr> gpuMax = 3, gpuTypes = [(''constructor'', Num 3)] \<rparr>" by code_simp
  have num: "parseNumericField ''1'' = 1" by code_simp
  have nd: "\<not> isDigit (CHR ''n'')" by code_simp
  have s: "trimmedNonEmpty [''p''] = [''p'']" by code_simp
  have p1: "parseLine ?l1 = Some (?v1, [''p''])"
    by (simp add: parseLine_five[OF c1] s g1 num nd)
  have p2: "parseLine ?l2 = Some (?v2, [''p''])"
    by (simp add: parseLine_five[OF c2] s g2 num nd)
  have inh: "''constructor'' \<in> set inheritedNames" by (simp add: inheritedNames_def)
  have m1: "mergeGpuTypes [] [(''constructor'', Num 5)] = [(''constructor'', NaN)]"
    using inh by (simp add: mergeGpuTypes_def readProp_def orZero_def jsMax_def writeProp_def)
  have m2: "mergeGpuTypes [(''constructor'', NaN)] [(''constructor'', Num 3)] =
      [(''constructor'', Num 3)]"
    by (simp add: mergeGpuTypes_def readProp_def orZero_def jsMax_def writeProp_def)
  have pn1: "processName ?v1 initialState ''p'' = ?st1"
    by (simp add: processName_def Let_def initialState_def hasStar_def cleanName_def truthy_def
        freshPartition_def m1)
  have pn2: "processName ?v2 ?st1 ''p'' = ?st2"
    by (simp add: processName_def Let_def hasStar_def cleanName_def truthy_def m2)
  have f: "foldl processLine initialState [?l1, ?l2] = ?st2"
    by (simp only: foldl_Cons foldl_Nil processLine_def p1 p2 option.case prod.case pn1 pn2)
  have "parsePartitionInfoOutput le (?l1 @ [CHR 0x0A] @ ?l2) =
     \<lparr> partitions =
         [\<lparr> gpuMax = 5, gpuTypes = [(''constructor'', Num 3)], name = ''p'', nodes = 2, cpus = 1,
            memMb = 1, isDefault = False \<rparr>],
       defaultPartition = None \<rparr>"
    unfolding parsePartitionInfoOutput_def rl parseLines_def f Let_def
    by (simp add: applyNodeSet_def sortByName_def)
  then show ?thesis using p1 p2 by simp
qed

section \<open>Properties of the cluster-information fetch\<close>

lemma fetchLoop_success:
  "run i c = Inr out \<Longrightarrow>
   fetchLoop le run i lastInfo (c # rest) =
     (if accepted le out then Inr (parsePartitionInfoOutput le out)
      else fetchLoop le run (Suc i) (parsePartitionInfoOutput le out) rest)"
  by (auto simp: accepted_def Let_def)

lemma fetchLoop_failure: "run i c = Inl e \<Longrightarrow> fetchLoop le run i lastInfo (c # rest) = Inl e"
  by simp

lemma fetchLoop_Inl_iff:
  "fetchLoop le run i lastInfo cs = Inl e \<longleftrightarrow>
     (\<exists>k<length cs. run (i + k) (cs ! k) = Inl e \<and>
        (\<forall>j<k. \<exists>out. run (i + j) (cs ! j) = Inr out \<and> \<not> accepted le out))"
proof (induction cs arbitrary: i lastInfo)
  case Nil
  then show ?case by simp
next
  case (Cons c cs)
  show ?case
  proof (cases "run i c")
    case (Inl e')
    then show ?thesis
      by (simp add: Ex_less_Suc2 All_less_Suc2)
  next
    case (Inr out)
    have step: "fetchLoop le run i lastInfo (c # cs) =
        (if accepted le out then Inr (parsePartitionInfoOutput le out)
         else fetchLoop le run (Suc i) (parsePartitionInfoOutput le out) cs)"
      using Inr by (rule fetchLoop_success)
    show ?thesis
      unfolding step
      using Cons.IH[of "Suc i" "parsePartitionInfoOutput le out"] Inr
      by (simp add: Ex_less_Suc2 All_less_Suc2)
  qed
qed

lemma fetchLoop_first_accepted:
  assumes "k < length cs" and "run (i + k) (cs ! k) = Inr out" and "accepted le out"
    and "\<forall>j<k. \<exists>r. run (i + j) (cs ! j) = Inr r \<and> \<not> accepted le r"
  shows "fetchLoop le run i lastInfo cs = Inr (parsePartitionInfoOutput le out)"
  using assms
proof (induction cs arbitrary: i lastInfo k)
  case Nil
  then show ?case by simp
next
  case (Cons c cs)
  show ?case
  proof (cases k)
    case 0
    then have "run i c = Inr out" using Cons.prems(2) by simp
    then have "fetchLoop le run i lastInfo (c # cs) =
        (if accepted le out then Inr (parsePartitionInfoOutput le out)
         else fetchLoop le run (Suc i) (parsePartitionInfoOutput le out) cs)"
      by (rule fetchLoop_success)
    then show ?thesis using Cons.prems(3) by (simp only: if_True)
  next
    case (Suc k')
    from Cons.prems(4) Suc obtain o0 where o0: "run i c = Inr o0" "\<not> accepted le o0"
      by force
    have a: "k' < length cs" using Cons.prems(1) Suc by simp
    have b: "run (Suc i + k') (cs ! k') = Inr out" using Cons.prems(2) Suc by simp
    have c: "\<forall>j<k'. \<exists>r. run (Suc i + j) (cs ! j) = Inr r \<and> \<not> accepted le r"
    proof (intro allI impI)
      fix j assume "j < k'"
      then have "Suc j < k" using Suc by simp
      then have "\<exists>r. run (i + Suc j) ((c # cs) ! Suc j) = Inr r \<and> \<not> accepted le r"
        using Cons.prems(4) by blast
      then show "\<exists>r. run (Suc i + j) (cs ! j) = Inr r \<and> \<not> accepted le r" by simp
    qed
    have "fetchLoop le run (Suc i) (parsePartitionInfoOutput le o0) cs =
        Inr (parsePartitionInfoOutput le out)"
      by (rule Cons.IH[OF a b Cons.prems(3) c])
    moreover have "fetchLoop le run i lastInfo (c # cs) =
        (if accepted le o0 then Inr (parsePartitionInfoOutput le o0)
         else fetchLoop le run (Suc i) (parsePartitionInfoOutput le o0) cs)"
      using o0(1) by (rule fetchLoop_success)
    ultimately show ?thesis using o0(2) by (simp only: if_False)
  qed
qed

lemma fetchLoop_none_accepted:
  assumes "cs \<noteq> []"
    and "\<forall>j<length cs. \<exists>r. run (i + j) (cs ! j) = Inr r \<and> \<not> accepted le r"
    and "run (i + (length cs - 1)) (cs ! (length cs - 1)) = Inr out"
  shows "fetchLoop le run i lastInfo cs = Inr (parsePartitionInfoOutput le out)"
  using assms
proof (induction cs arbitrary: i lastInfo)
  case Nil
  then show ?case by simp
next
  case (Cons c cs)
  from Cons.prems(2) obtain o0 where o0: "run i c = Inr o0" "\<not> accepted le o0"
    by force
  have "fetchLoop le run i lastInfo (c # cs) =
        (if accepted le o0 then Inr (parsePartitionInfoOutput le o0)
         else fetchLoop le run (Suc i) (parsePartitionInfoOutput le o0) cs)"
    using o0(1) by (rule fetchLoop_success)
  then have step: "fetchLoop le run i lastInfo (c # cs) =
      fetchLoop le run (Suc i) (parsePartitionInfoOutput le o0) cs"
    using o0(2) by (simp only: if_False)
  show ?case
  proof (cases "cs = []")
    case True
    then have "o0 = out" using Cons.prems(3) o0 by simp
    then show ?thesis using step True by simp
  next
    case False
    have b: "\<forall>j<length cs. \<exists>r. run (Suc i + j) (cs ! j) = Inr r \<and> \<not> accepted le r"
    proof (intro allI impI)
      fix j assume "j < length cs"
      then have "Suc j < length (c # cs)" by simp
      then have "\<exists>r. run (i + Suc j) ((c # cs) ! Suc j) = Inr r \<and> \<not> accepted le r"
        using Cons.prems(2) by blast
      then show "\<exists>r. run (Suc i + j) (cs ! j) = Inr r \<and> \<not> accepted le r" by simp
    qed
    obtain m where m: "length cs = Suc m" using False by (cases cs) auto
    have "run (i + Suc m) ((c # cs) ! Suc m) = Inr out"
      using Cons.prems(3) m by simp
    then have c': "run (Suc i + (length cs - 1)) (cs ! (length cs - 1)) = Inr out"
      by (simp add: m)
    show ?thesis
      unfolding step by (rule Cons.IH[OF False b c'])
  qed
qed

lemma parse_empty_output:
  "parsePartitionInfoOutput le [] = \<lparr> partitions = [], defaultPartition = None \<rparr>"
  by (simp add: parsePartitionInfoOutput_def reportLines_def splitLines_def trimmedNonEmpty_def
      trim_def parseLines_def initialState_def sortByName_def)

lemma not_accepted_few_fields: "getMaxFieldCount out < 5 \<Longrightarrow> \<not> accepted le out"
  by (simp add: accepted_def Let_def)

lemma sinfo_commands_differ: "sinfoPerNode \<noteq> sinfoPerPartition" "sinfoPerNode \<noteq> []"
  "sinfoPerPartition \<noteq> []"
  by (simp_all add: sinfoPerNode_def sinfoPerPartition_def)

lemma candidateCommands_length: "2 \<le> length (candidateCommands cfg)"
  using sinfo_commands_differ by (simp add: candidateCommands_def)

text \<open>
  Claim C1 as it is stated fails. With no custom command the candidates are the two fixed
  commands; the first runs and gives an empty report, which parses to a cluster without
  partitions, and the second fails: the fetch throws the error of the second, although the
  execution of the first did not fail, and the result of the first is not returned.
\<close>

theorem fetch_throws_after_parsed_candidate:
  "candidateCommands defaultConfig = [sinfoPerNode, sinfoPerPartition] \<and>
   (\<lambda>i c. if i = 0 then Inr [] else Inl (ExecError ''timed out'')) (0::nat) sinfoPerNode = Inr [] \<and>
   parsePartitionInfoOutput codeUnitLe [] = \<lparr> partitions = [], defaultPartition = None \<rparr> \<and>
   fetchClusterInfo codeUnitLe
     (\<lambda>i c. if i = 0 then Inr [] else Inl (ExecError ''timed out''))
     defaultConfig = Inl (ExecError ''timed out'')"
proof -
  have c: "candidateCommands defaultConfig = [sinfoPerNode, sinfoPerPartition]"
    using sinfo_commands_differ by (simp add: candidateCommands_def defaultConfig_def)
  have m: "getMaxFieldCount [] = 0"
    by (simp add: getMaxFieldCount_def splitLines_def trim_def)
  have "fetchClusterInfo codeUnitLe
     (\<lambda>i c. if i = 0 then Inr [] else Inl (ExecError ''timed out''))
     defaultConfig = Inl (ExecError ''timed out'')"
    unfolding fetchClusterInfo_def c
    by (simp add: parse_empty_output m Let_def)
  then show ?thesis using c parse_empty_output by simp
qed

text \<open>
  Claim C1, amended. The candidates are run in their order, each entry of the list with a
  call of its own. The fetch throws exactly when the call for a candidate fails and every
  candidate before it ran and was not accepted, and it throws the error of that call; a
  candidate that ran and was parsed before the failure does not change this. Where the
  call for a candidate gives an output that is accepted, and every candidate before it ran
  and was not accepted, the fetch returns the parsed output of that candidate. Where every
  candidate ran and none was accepted, the fetch returns the parsed output of the last
  candidate; there are always at least two candidates.
\<close>

theorem fetch_throws_at_first_failure:
  "(fetchClusterInfo le run cfg = Inl e \<longleftrightarrow>
      (\<exists>k<length (candidateCommands cfg).
         run k (candidateCommands cfg ! k) = Inl e \<and>
         (\<forall>j<k. \<exists>r. run j (candidateCommands cfg ! j) = Inr r \<and> \<not> accepted le r))) \<and>
   (\<forall>k out. k < length (candidateCommands cfg) \<and>
        run k (candidateCommands cfg ! k) = Inr out \<and> accepted le out \<and>
        (\<forall>j<k. \<exists>r. run j (candidateCommands cfg ! j) = Inr r \<and> \<not> accepted le r) \<longrightarrow>
      fetchClusterInfo le run cfg = Inr (parsePartitionInfoOutput le out)) \<and>
   (\<forall>out. (\<forall>j<length (candidateCommands cfg).
               \<exists>r. run j (candidateCommands cfg ! j) = Inr r \<and> \<not> accepted le r) \<and>
        run (length (candidateCommands cfg) - 1)
          (candidateCommands cfg ! (length (candidateCommands cfg) - 1)) = Inr out \<longrightarrow>
      fetchClusterInfo le run cfg = Inr (parsePartitionInfoOutput le out)) \<and>
   2 \<le> length (candidateCommands cfg)"
proof (intro conjI allI impI)
  show "fetchClusterInfo le run cfg = Inl e \<longleftrightarrow>
      (\<exists>k<length (candidateCommands cfg).
         run k (candidateCommands cfg ! k) = Inl e \<and>
         (\<forall>j<k. \<exists>r. run j (candidateCommands cfg ! j) = Inr r \<and> \<not> accepted le r))"
    unfolding fetchClusterInfo_def
    using fetchLoop_Inl_iff[of le run 0 _ "candidateCommands cfg" e] by simp
next
  fix k out
  assume a: "k < length (candidateCommands cfg) \<and>
        run k (candidateCommands cfg ! k) = Inr out \<and> accepted le out \<and>
        (\<forall>j<k. \<exists>r. run j (candidateCommands cfg ! j) = Inr r \<and> \<not> accepted le r)"
  show "fetchClusterInfo le run cfg = Inr (parsePartitionInfoOutput le out)"
    unfolding fetchClusterInfo_def
    using a fetchLoop_first_accepted[of k "candidateCommands cfg" run 0 out le] by simp
next
  fix out
  assume a: "(\<forall>j<length (candidateCommands cfg).
               \<exists>r. run j (candidateCommands cfg ! j) = Inr r \<and> \<not> accepted le r) \<and>
        run (length (candidateCommands cfg) - 1)
          (candidateCommands cfg ! (length (candidateCommands cfg) - 1)) = Inr out"
  have ne: "candidateCommands cfg \<noteq> []" using candidateCommands_length[of cfg] by auto
  show "fetchClusterInfo le run cfg = Inr (parsePartitionInfoOutput le out)"
    unfolding fetchClusterInfo_def
    using a fetchLoop_none_accepted[OF ne, of run 0 le out] by simp
next
  show "2 \<le> length (candidateCommands cfg)" by (rule candidateCommands_length)
qed

text \<open>
  Three fetches. With the per-node command also set as the custom command, the same command
  is run twice: its first call gives a report of two fields, which is not accepted, and its
  second call cannot connect, so the fetch throws. A report of one partition with its
  CPUs is accepted from the first candidate. Where every call gives an empty output, the
  parsed output of the last call is returned.
\<close>

theorem fetch_throws_at_first_failure_witness:
  "candidateCommands (defaultConfig\<lparr> partitionInfoCommand := sinfoPerNode \<rparr>) =
     [sinfoPerNode, sinfoPerNode, sinfoPerPartition] \<and>
   fetchClusterInfo codeUnitLe
     (\<lambda>i c. if i = 0 then Inr ''a|b'' else Inl (ExecError ''no route to host''))
     (defaultConfig\<lparr> partitionInfoCommand := sinfoPerNode \<rparr>) =
   Inl (ExecError ''no route to host'') \<and>
   fetchClusterInfo codeUnitLe (\<lambda>i c. Inr ''cpu|10|32|64000|'') defaultConfig =
   Inr \<lparr> partitions =
           [\<lparr> gpuMax = 0, gpuTypes = [], name = ''cpu'', nodes = 10, cpus = 32,
              memMb = 64000, isDefault = False \<rparr>],
         defaultPartition = None \<rparr> \<and>
   fetchClusterInfo codeUnitLe (\<lambda>i c. Inr []) defaultConfig =
   Inr \<lparr> partitions = [], defaultPartition = None \<rparr>"
proof -
  let ?run = "\<lambda>(i::nat) (c::string). if i = 0 then Inr ''a|b'' else Inl (ExecError ''no route to host'')"
  let ?cfg = "defaultConfig\<lparr> partitionInfoCommand := sinfoPerNode \<rparr>"
  have c: "candidateCommands ?cfg = [sinfoPerNode, sinfoPerNode, sinfoPerPartition]"
    using sinfo_commands_differ by (simp add: candidateCommands_def defaultConfig_def)
  have c0: "candidateCommands defaultConfig = [sinfoPerNode, sinfoPerPartition]"
    using sinfo_commands_differ by (simp add: candidateCommands_def defaultConfig_def)
  have m: "getMaxFieldCount ''a|b'' < 5" by code_simp
  have na: "\<not> accepted codeUnitLe ''a|b''" by (rule not_accepted_few_fields[OF m])
  have first: "fetchClusterInfo codeUnitLe ?run ?cfg = Inl (ExecError ''no route to host'')"
  proof -
    have "\<exists>k<length (candidateCommands ?cfg).
         ?run k (candidateCommands ?cfg ! k) = Inl (ExecError ''no route to host'') \<and>
         (\<forall>j<k. \<exists>r. ?run j (candidateCommands ?cfg ! j) = Inr r \<and> \<not> accepted codeUnitLe r)"
      unfolding c using na by (intro exI[of _ 1]) simp
    then show ?thesis
      using fetch_throws_at_first_failure[of codeUnitLe ?run ?cfg "ExecError ''no route to host''"]
      by blast
  qed
  let ?out = "''cpu|10|32|64000|''"
  let ?v = "\<lparr> nodeName = None, nodesCount = 10, lineCpus = 32, lineMemMb = 64000,
              gresInfo = \<lparr> gpuMax = 0, gpuTypes = [] \<rparr> \<rparr>"
  let ?info = "\<lparr> partitions =
           [\<lparr> gpuMax = 0, gpuTypes = [], name = ''cpu'', nodes = 10, cpus = 32,
              memMb = 64000, isDefault = False \<rparr>],
         defaultPartition = None \<rparr>"
  have rl: "reportLines ?out = [?out]" by code_simp
  have cols: "map trim (splitOn (CHR ''|'') ?out) = [''cpu'', ''10'', ''32'', ''64000'', []]"
    by code_simp
  have d: "isDigit (CHR ''1'')" by code_simp
  have num: "parseNumericField ''10'' = 10" "parseNumericField ''32'' = 32"
    "parseNumericField ''64000'' = 64000"
    by (simp_all add: parseNumericField_def isDigit_def digitsToNat_def digitVal_def)
  have g: "parseGresInfo [] = \<lparr> gpuMax = 0, gpuTypes = [] \<rparr>"
    by (simp add: parseGresInfo_def)
  have s: "trimmedNonEmpty [''cpu''] = [''cpu'']" by code_simp
  have pl: "parseLine ?out = Some (?v, [''cpu''])"
    by (simp add: parseLine_five[OF cols] s g num d)
  have pn: "processName ?v initialState ''cpu'' =
     \<lparr> partitionMap = [(''cpu'', \<lparr> gpuMax = 0, gpuTypes = [], name = ''cpu'', nodes = 10,
          cpus = 32, memMb = 64000, isDefault = False \<rparr>)],
       nodeSets = [], defaultName = None \<rparr>"
    by (simp add: processName_def Let_def initialState_def hasStar_def cleanName_def truthy_def
        freshPartition_def mergeGpuTypes_def)
  have f: "foldl processLine initialState [?out] =
     \<lparr> partitionMap = [(''cpu'', \<lparr> gpuMax = 0, gpuTypes = [], name = ''cpu'', nodes = 10,
          cpus = 32, memMb = 64000, isDefault = False \<rparr>)],
       nodeSets = [], defaultName = None \<rparr>"
    by (simp only: foldl_Cons foldl_Nil processLine_def pl option.case prod.case pn)
  have parse: "parsePartitionInfoOutput codeUnitLe ?out = ?info"
    unfolding parsePartitionInfoOutput_def rl parseLines_def f Let_def
    by (simp add: applyNodeSet_def sortByName_def)
  have ng: "\<not> strIncludes ''gpu:'' ?out" by code_simp
  have mf: "getMaxFieldCount ?out = 5" by code_simp
  have acc: "accepted codeUnitLe ?out"
    unfolding accepted_def parse Let_def using ng mf
    by (simp add: hasMeaningfulClusterInfo_def)
  have second: "fetchClusterInfo codeUnitLe (\<lambda>i c. Inr ?out) defaultConfig = Inr ?info"
  proof -
    have "0 < length (candidateCommands defaultConfig) \<and>
        (\<lambda>(i::nat) (c::string). Inr ?out :: error + string) 0 (candidateCommands defaultConfig ! 0) = Inr ?out \<and>
        accepted codeUnitLe ?out \<and>
        (\<forall>j<(0::nat). \<exists>r. (\<lambda>(i::nat) (c::string). Inr ?out :: error + string) j
            (candidateCommands defaultConfig ! j) = Inr r \<and> \<not> accepted codeUnitLe r)"
      using acc c0 by simp
    then have "fetchClusterInfo codeUnitLe (\<lambda>i c. Inr ?out) defaultConfig =
        Inr (parsePartitionInfoOutput codeUnitLe ?out)"
      using fetch_throws_at_first_failure[of codeUnitLe "\<lambda>i c. Inr ?out" defaultConfig "ExecError []"]
      by blast
    then show ?thesis unfolding parse .
  qed
  have m0: "getMaxFieldCount [] < 5"
    by (simp add: getMaxFieldCount_def splitLines_def trim_def)
  have na0: "\<not> accepted codeUnitLe []" by (rule not_accepted_few_fields[OF m0])
  have third: "fetchClusterInfo codeUnitLe (\<lambda>i c. Inr []) defaultConfig =
      Inr \<lparr> partitions = [], defaultPartition = None \<rparr>"
  proof -
    have "(\<forall>j<length (candidateCommands defaultConfig).
               \<exists>r. (\<lambda>(i::nat) (c::string). Inr [] :: error + string) j
                     (candidateCommands defaultConfig ! j) = Inr r \<and> \<not> accepted codeUnitLe r) \<and>
        (\<lambda>(i::nat) (c::string). Inr [] :: error + string) (length (candidateCommands defaultConfig) - 1)
          (candidateCommands defaultConfig ! (length (candidateCommands defaultConfig) - 1)) = Inr []"
      using na0 by simp
    then have "fetchClusterInfo codeUnitLe (\<lambda>i c. Inr []) defaultConfig =
        Inr (parsePartitionInfoOutput codeUnitLe [])"
      using fetch_throws_at_first_failure[of codeUnitLe "\<lambda>i c. Inr []" defaultConfig "ExecError []"]
      by blast
    then show ?thesis unfolding parse_empty_output .
  qed
  show ?thesis using c first second third by simp
qed

section \<open>Properties of the launch command\<close>

text \<open>
  Claim C9. The command that \<^verbatim>\<open>connectCommand\<close> composes from \<^verbatim>\<open>buildSallocArgs\<close> and
  \<^verbatim>\<open>buildRemoteCommand\<close> is a function of the selection and of four fields of the
  configuration only: two configurations that agree on \<^verbatim>\<open>moduleLoad\<close>, \<^verbatim>\<open>proxyCommand\<close>,
  \<^verbatim>\<open>proxyArgs\<close> and \<^verbatim>\<open>extraSallocArgs\<close> give the same string for the same selection and
  extra arguments, whatever their other fields are. Neither function reads the clock, the
  file system or any other state: they take none.
\<close>

theorem launchCommand_depends_on_inputs_only:
  assumes "moduleLoad cfg1 = moduleLoad cfg2" and "proxyCommand cfg1 = proxyCommand cfg2"
    and "proxyArgs cfg1 = proxyArgs cfg2" and "extraSallocArgs cfg1 = extraSallocArgs cfg2"
    and "params1 = params2" and "extraArgs1 = extraArgs2"
  shows "launchCommand cfg1 params1 extraArgs1 = launchCommand cfg2 params2 extraArgs2"
  unfolding launchCommand_def buildRemoteCommand_def assms by (rule refl)

text \<open>
  Two configurations for different users and keys, with the same proxy settings, and one
  selection.
\<close>

theorem launchCommand_depends_on_inputs_only_witness:
  "launchCommand
     (defaultConfig\<lparr> proxyCommand := ''python vscode-shell-proxy.py'', user := ''alice'',
        identityFile := ''~/.ssh/id_a'', sshConnectTimeoutSeconds := 5 \<rparr>)
     \<lparr> partition = Some ''gpu'', nodesArg = 2, tasksPerNode = 1, cpusPerTask = 8,
       time = ''01:00:00'', memoryMb = Some 0, gpuType = Some ''a100'', gpuCount = Some 1,
       qos = None, account = None \<rparr> [''--exclusive''] =
   launchCommand
     (defaultConfig\<lparr> proxyCommand := ''python vscode-shell-proxy.py'', user := ''bob'',
        identityFile := ''~/.ssh/id_b'', loginHosts := [''login2''] \<rparr>)
     \<lparr> partition = Some ''gpu'', nodesArg = 2, tasksPerNode = 1, cpusPerTask = 8,
       time = ''01:00:00'', memoryMb = Some 0, gpuType = Some ''a100'', gpuCount = Some 1,
       qos = None, account = None \<rparr> [''--exclusive'']"
  by (rule launchCommand_depends_on_inputs_only) (simp_all add: defaultConfig_def)

section \<open>Properties of the host entry and the temporary configuration file\<close>

text \<open>
  Claim C3, on the code. \<^verbatim>\<open>buildHostEntry\<close> puts every value after its directive as it
  is: for the configuration of the repository's test the entry has the identity file and
  the option with their spaces and without quotes, and neither of the two quoted
  directives that the test looks for occurs in it.
\<close>

theorem host_entry_values_unquoted:
  "buildHostEntry ''2024-01-01T00:00:00.000Z'' ''alias'' ''login.example.com'' quotesTestConfig
     ''echo hi'' =
   joinWith [CHR 0x0A]
     [''# Generated by Sciama Slurm Connect on 2024-01-01T00:00:00.000Z'',
      ''Host alias'',
      ''  HostName login.example.com'',
      ''  IdentityFile /Users/Test User/.ssh/id_rsa'',
      ''  RemoteCommand echo hi'',
      ''  LocalCommand echo hello world''] @ [CHR 0x0A] \<and>
   \<not> strIncludes (''IdentityFile '' @ [CHR 0x22] @ ''/Users/Test User/.ssh/id_rsa'' @ [CHR 0x22])
      (buildHostEntry ''2024-01-01T00:00:00.000Z'' ''alias'' ''login.example.com''
         quotesTestConfig ''echo hi'') \<and>
   \<not> strIncludes (''LocalCommand '' @ [CHR 0x22] @ ''echo hello world'' @ [CHR 0x22])
      (buildHostEntry ''2024-01-01T00:00:00.000Z'' ''alias'' ''login.example.com''
         quotesTestConfig ''echo hi'')"
proof -
  have k: "sortedKeys [(''LocalCommand'', ''echo hello world'')] = [''LocalCommand'']"
    by (simp add: sortedKeys_def)
  have e: "buildHostEntry ''2024-01-01T00:00:00.000Z'' ''alias'' ''login.example.com''
      quotesTestConfig ''echo hi'' =
    joinWith [CHR 0x0A]
     [''# Generated by Sciama Slurm Connect on 2024-01-01T00:00:00.000Z'',
      ''Host alias'',
      ''  HostName login.example.com'',
      ''  IdentityFile /Users/Test User/.ssh/id_rsa'',
      ''  RemoteCommand echo hi'',
      ''  LocalCommand echo hello world''] @ [CHR 0x0A]"
    by (simp add: buildHostEntry_def quotesTestConfig_def defaultConfig_def k)
  have n1: "\<not> strIncludes (''IdentityFile '' @ [CHR 0x22] @ ''/Users/Test User/.ssh/id_rsa'' @ [CHR 0x22])
     (joinWith [CHR 0x0A]
     [''# Generated by Sciama Slurm Connect on 2024-01-01T00:00:00.000Z'',
      ''Host alias'',
      ''  HostName login.example.com'',
      ''  IdentityFile /Users/Test User/.ssh/id_rsa'',
      ''  RemoteCommand echo hi'',
      ''  LocalCommand echo hello world''] @ [CHR 0x0A])"
    by code_simp
  have n2: "\<not> strIncludes (''LocalCommand '' @ [CHR 0x22] @ ''echo hello world'' @ [CHR 0x22])
     (joinWith [CHR 0x0A]
     [''# Generated by Sciama Slurm Connect on 2024-01-01T00:00:00.000Z'',
      ''Host alias'',
      ''  HostName login.example.com'',
      ''  IdentityFile /Users/Test User/.ssh/id_rsa'',
      ''  RemoteCommand echo hi'',
      ''  LocalCommand echo hello world''] @ [CHR 0x0A])"
    by code_simp
  show ?thesis unfolding e using n1 n2 by simp
qed

lemma includes_start:
  "concat (map (\<lambda>v. ''Include '' @ v @ [CHR 0x0A]) vals) = h # t \<Longrightarrow> h = CHR ''I''"
  by (cases vals) auto

text \<open>
  Claim C4 as it is stated fails. The file written for a host block is a comment line
  followed by the block: it is not a sequence of \<^verbatim>\<open>Include\<close> lines followed by the block,
  whatever the values of the lines are.
\<close>

theorem overlay_starts_with_comment:
  "writeTemporarySshConfig exampleEnv ''alias'' (''Host alias'' @ [CHR 0x0A]) defaultConfig
     emptyFileSystem =
   Inr (''/tmp/sciama-ssh-config'',
        \<lparr> dirs = {''/tmp''},
          files = (\<lambda>p. None)(''/tmp/sciama-ssh-config'' \<mapsto>
            ''# Temporary SSH config generated by Sciama Slurm Connect'' @ [CHR 0x0A] @
            ''Host alias'' @ [CHR 0x0A]),
          denied = {} \<rparr>) \<and>
   \<not> (\<exists>vals. ''# Temporary SSH config generated by Sciama Slurm Connect'' @ [CHR 0x0A] @
                 ''Host alias'' @ [CHR 0x0A] =
               concat (map (\<lambda>v. ''Include '' @ v @ [CHR 0x0A]) vals) @ ''Host alias'' @ [CHR 0x0A])"
proof -
  have p: "overlayPath exampleEnv defaultConfig = ''/tmp/sciama-ssh-config''"
    by (simp add: overlayPath_def exampleEnv_def defaultConfig_def truthy_def joinSlash_def)
  have d: "dirnameSlash ''/tmp/sciama-ssh-config'' = ''/tmp''"
    by (simp add: dirnameSlash_def)
  have w: "writeTemporarySshConfig exampleEnv ''alias'' (''Host alias'' @ [CHR 0x0A]) defaultConfig
     emptyFileSystem =
   Inr (''/tmp/sciama-ssh-config'',
        \<lparr> dirs = {''/tmp''},
          files = (\<lambda>p. None)(''/tmp/sciama-ssh-config'' \<mapsto>
            ''# Temporary SSH config generated by Sciama Slurm Connect'' @ [CHR 0x0A] @
            ''Host alias'' @ [CHR 0x0A]),
          denied = {} \<rparr>)"
    unfolding writeTemporarySshConfig_def p Let_def
    by (simp add: exampleEnv_def d mkdirRecursive_def writeFile_def emptyFileSystem_def
        overlayHeader_def)
  have n: "\<not> (\<exists>vals. ''# Temporary SSH config generated by Sciama Slurm Connect'' @ [CHR 0x0A] @
                 ''Host alias'' @ [CHR 0x0A] =
               concat (map (\<lambda>v. ''Include '' @ v @ [CHR 0x0A]) vals) @ ''Host alias'' @ [CHR 0x0A])"
  proof
    assume "\<exists>vals. ''# Temporary SSH config generated by Sciama Slurm Connect'' @ [CHR 0x0A] @
                 ''Host alias'' @ [CHR 0x0A] =
               concat (map (\<lambda>v. ''Include '' @ v @ [CHR 0x0A]) vals) @ ''Host alias'' @ [CHR 0x0A]"
    then obtain vals where v: "(''# Temporary SSH config generated by Sciama Slurm Connect'' @ [CHR 0x0A]) @
                 (''Host alias'' @ [CHR 0x0A]) =
               concat (map (\<lambda>v. ''Include '' @ v @ [CHR 0x0A]) vals) @ (''Host alias'' @ [CHR 0x0A])"
      by auto
    then have "concat (map (\<lambda>v. ''Include '' @ v @ [CHR 0x0A]) vals) =
        ''# Temporary SSH config generated by Sciama Slurm Connect'' @ [CHR 0x0A]"
      by (simp only: append_same_eq)
    then have "concat (map (\<lambda>v. ''Include '' @ v @ [CHR 0x0A]) vals) =
        CHR ''#'' # '' Temporary SSH config generated by Sciama Slurm Connect'' @ [CHR 0x0A]"
      by simp
    then have "CHR ''#'' = CHR ''I''" by (rule includes_start)
    then show False by simp
  qed
  show ?thesis using w n by blast
qed

text \<open>
  Claim C4, amended. Where the directory of the file and the file can be written, the
  file is written at the configured path, with a leading \<^verbatim>\<open>~\<close> replaced by the home
  directory, or else at \<^verbatim>\<open>sciama-ssh-config\<close> in the storage directory of the extension
  (the temporary directory when there is none); its directory exists afterwards; its
  content is the comment line followed by the host block; and no other file changes.
\<close>

theorem overlay_written_at_configured_path:
  assumes "pathDirname env (overlayPath env cfg) \<notin> denied fs"
    and "overlayPath env cfg \<notin> denied fs"
  shows "\<exists>fs'. writeTemporarySshConfig env alias entry cfg fs = Inr (overlayPath env cfg, fs') \<and>
           files fs' (overlayPath env cfg) = Some (overlayHeader @ entry) \<and>
           pathDirname env (overlayPath env cfg) \<in> dirs fs' \<and>
           (\<forall>p. p \<noteq> overlayPath env cfg \<longrightarrow> files fs' p = files fs p) \<and>
           overlayPath env cfg =
             (if temporarySshConfigPath cfg \<noteq> [] then expandHome env (temporarySshConfigPath cfg)
              else pathJoin env
                     (if truthy (extensionStoragePath env) then the (extensionStoragePath env)
                      else tmpdir env)
                     ''sciama-ssh-config'')"
  using assms
  by (simp add: writeTemporarySshConfig_def Let_def mkdirRecursive_def writeFile_def)
     (simp add: overlayPath_def)

text \<open>A configured path under the home directory, on an empty file system.\<close>

theorem overlay_written_at_configured_path_witness:
  "overlayPath exampleEnv (defaultConfig\<lparr> temporarySshConfigPath := ''~/.ssh/sciama.conf'' \<rparr>) =
     ''/home/u/.ssh/sciama.conf'' \<and>
   (\<exists>fs'. writeTemporarySshConfig exampleEnv ''alias'' (''Host alias'' @ [CHR 0x0A])
             (defaultConfig\<lparr> temporarySshConfigPath := ''~/.ssh/sciama.conf'' \<rparr>) emptyFileSystem =
           Inr (''/home/u/.ssh/sciama.conf'', fs') \<and>
         files fs' ''/home/u/.ssh/sciama.conf'' =
           Some (overlayHeader @ ''Host alias'' @ [CHR 0x0A]) \<and>
         ''/home/u/.ssh'' \<in> dirs fs')"
proof -
  let ?cfg = "defaultConfig\<lparr> temporarySshConfigPath := ''~/.ssh/sciama.conf'' \<rparr>"
  have p: "overlayPath exampleEnv ?cfg = ''/home/u/.ssh/sciama.conf''"
    by (simp add: overlayPath_def exampleEnv_def expandHome_def joinSlash_def)
  have d: "pathDirname exampleEnv ''/home/u/.ssh/sciama.conf'' = ''/home/u/.ssh''"
    by (simp add: exampleEnv_def dirnameSlash_def)
  have a1: "pathDirname exampleEnv (overlayPath exampleEnv ?cfg) \<notin> denied emptyFileSystem"
    by (simp add: emptyFileSystem_def)
  have a2: "overlayPath exampleEnv ?cfg \<notin> denied emptyFileSystem"
    by (simp add: emptyFileSystem_def)
  from overlay_written_at_configured_path[OF a1 a2, of "''alias''" "''Host alias'' @ [CHR 0x0A]"]
  obtain fs' where f:
    "writeTemporarySshConfig exampleEnv ''alias'' (''Host alias'' @ [CHR 0x0A]) ?cfg emptyFileSystem =
       Inr (overlayPath exampleEnv ?cfg, fs')"
    "files fs' (overlayPath exampleEnv ?cfg) = Some (overlayHeader @ ''Host alias'' @ [CHR 0x0A])"
    "pathDirname exampleEnv (overlayPath exampleEnv ?cfg) \<in> dirs fs'"
    by blast
  show ?thesis using p f[unfolded p d] by blast
qed

section \<open>Properties of the connect command without prompts\<close>

lemma sizingError_None_iff:
  "sizingError n t c w = None \<longleftrightarrow> 1 \<le> n \<and> 1 \<le> t \<and> 1 \<le> c \<and> w \<noteq> []"
  by (auto simp: sizingError_def)

lemma sizingError_messages:
  "sizingError n t c w = Some msg \<Longrightarrow>
     (n < 1 \<and> msg = ''Default nodes is not set. Fill it in the side panel or settings.'') \<or>
     (1 \<le> n \<and> t < 1 \<and>
        msg = ''Default tasks per node is not set. Fill it in the side panel or settings.'') \<or>
     (1 \<le> n \<and> 1 \<le> t \<and> c < 1 \<and>
        msg = ''Default CPUs per task is not set. Fill it in the side panel or settings.'') \<or>
     (1 \<le> n \<and> 1 \<le> t \<and> 1 \<le> c \<and> w = [] \<and>
        msg = ''Default wall time is not set. Fill it in the side panel or settings.'')"
  unfolding sizingError_def by (simp split: if_splits) linarith+

lemma connectCommand_sizing_stop:
  assumes "hosts \<noteq> []" and "hosts ! 0 \<noteq> []"
    and "sizingError (defaultNodes cfg) (defaultTasksPerNode cfg) (defaultCpusPerTask cfg)
           (defaultTime cfg) = Some msg"
  shows "connectCommand env now hosts connectOk cfg w = (Stopped, w\<lparr> shown := shown w @ [msg] \<rparr>)"
  using assms by (simp add: connectCommand_def Let_def showMessage_def)

lemma writeTemporarySshConfig_ok:
  assumes "pathDirname env (overlayPath env cfg) \<notin> denied fs"
    and "overlayPath env cfg \<notin> denied fs"
  shows "writeTemporarySshConfig env alias entry cfg fs =
     Inr (overlayPath env cfg,
          fs\<lparr> dirs := insert (pathDirname env (overlayPath env cfg)) (dirs fs),
              files := (files fs)(overlayPath env cfg \<mapsto> overlayHeader @ entry) \<rparr>)"
  using assms
  by (simp add: writeTemporarySshConfig_def Let_def mkdirRecursive_def writeFile_def)

lemma connectCommand_proceeds:
  assumes h: "hosts \<noteq> []" "hosts ! 0 \<noteq> []"
    and s: "sizingError (defaultNodes cfg) (defaultTasksPerNode cfg) (defaultCpusPerTask cfg)
           (defaultTime cfg) = None"
    and c: "launchCommand cfg
              \<lparr> partition = (if defaultPartitionName cfg \<noteq> [] then Some (defaultPartitionName cfg)
                              else None),
                nodesArg = defaultNodes cfg, tasksPerNode = defaultTasksPerNode cfg,
                cpusPerTask = defaultCpusPerTask cfg, time = defaultTime cfg,
                memoryMb = Some (defaultMemoryMb cfg), gpuType = Some (defaultGpuType cfg),
                gpuCount = Some (defaultGpuCount cfg), qos = None, account = None \<rparr> [] = cmd"
    and ne: "cmd \<noteq> []"
    and d: "pathDirname env (overlayPath env cfg) \<notin> denied (fileSystem w)"
       "overlayPath env cfg \<notin> denied (fileSystem w)"
  shows "fst (connectCommand env now hosts connectOk cfg w) = Created cmd (overlayPath env cfg)"
  using h ne
  by (simp add: connectCommand_def s c Let_def writeTemporarySshConfig_ok[OF d])

text \<open>
  Claim C5 as it is stated fails. In the call without prompts the wall time is only tested
  for being set: with \<^verbatim>\<open>soon\<close>, which the pattern of the prompt rejects, and the three
  counts at 1, the command is built with \<^verbatim>\<open>--time=soon\<close> and the file is written.
\<close>

theorem malformed_wall_time_is_not_rejected:
  "\<not> timePattern ''soon'' \<and>
   fst (connectCommand exampleEnv ''2024-01-01T00:00:00.000Z'' [''login1.example.org''] True
          (defaultConfig\<lparr> proxyCommand := ''python vscode-shell-proxy.py'',
             defaultTime := ''soon'' \<rparr>) emptyWorld) =
     Created
       (''python vscode-shell-proxy.py --salloc-arg=--nodes=1 --salloc-arg=--ntasks-per-node=1 '' @
        ''--salloc-arg=--cpus-per-task=1 --salloc-arg=--time=soon'')
       ''/tmp/sciama-ssh-config''"
proof -
  let ?cfg = "defaultConfig\<lparr> proxyCommand := ''python vscode-shell-proxy.py'',
             defaultTime := ''soon'' \<rparr>"
  have t: "\<not> timePattern ''soon''" by code_simp
  have p: "overlayPath exampleEnv ?cfg = ''/tmp/sciama-ssh-config''"
    by (simp add: overlayPath_def exampleEnv_def defaultConfig_def truthy_def joinSlash_def)
  have s: "sizingError (defaultNodes ?cfg) (defaultTasksPerNode ?cfg) (defaultCpusPerTask ?cfg)
           (defaultTime ?cfg) = None"
    by (simp add: sizingError_def defaultConfig_def)
  have one: "showInt 1 = ''1''" by code_simp
  have tr: "trim ''python vscode-shell-proxy.py'' = ''python vscode-shell-proxy.py''"
    by code_simp
  have tr2: "trim (''python vscode-shell-proxy.py --salloc-arg=--nodes=1 --salloc-arg=--ntasks-per-node=1 --salloc-arg=--cpus-per-task=1 --salloc-arg=--time=soon'') =
    ''python vscode-shell-proxy.py --salloc-arg=--nodes=1 --salloc-arg=--ntasks-per-node=1 --salloc-arg=--cpus-per-task=1 --salloc-arg=--time=soon''"
    by code_simp
  have c: "launchCommand ?cfg
              \<lparr> partition = (if defaultPartitionName ?cfg \<noteq> [] then Some (defaultPartitionName ?cfg)
                              else None),
                nodesArg = defaultNodes ?cfg, tasksPerNode = defaultTasksPerNode ?cfg,
                cpusPerTask = defaultCpusPerTask ?cfg, time = defaultTime ?cfg,
                memoryMb = Some (defaultMemoryMb ?cfg), gpuType = Some (defaultGpuType ?cfg),
                gpuCount = Some (defaultGpuCount ?cfg), qos = None, account = None \<rparr> [] =
     ''python vscode-shell-proxy.py --salloc-arg=--nodes=1 --salloc-arg=--ntasks-per-node=1 --salloc-arg=--cpus-per-task=1 --salloc-arg=--time=soon''"
    by (simp add: launchCommand_def buildRemoteCommand_def buildSallocArgs_def defaultConfig_def
        truthy_def positiveNum_def one tr tr2 Let_def)
  have d: "pathDirname exampleEnv (overlayPath exampleEnv ?cfg) \<notin> denied (fileSystem emptyWorld)"
     "overlayPath exampleEnv ?cfg \<notin> denied (fileSystem emptyWorld)"
    by (simp_all add: emptyWorld_def emptyFileSystem_def)
  have "fst (connectCommand exampleEnv ''2024-01-01T00:00:00.000Z'' [''login1.example.org''] True
          ?cfg emptyWorld) =
     Created ''python vscode-shell-proxy.py --salloc-arg=--nodes=1 --salloc-arg=--ntasks-per-node=1 --salloc-arg=--cpus-per-task=1 --salloc-arg=--time=soon''
       (overlayPath exampleEnv ?cfg)"
    by (rule connectCommand_proceeds[OF _ _ s c _ d]) simp_all
  then show ?thesis using t p by simp
qed

text \<open>
  Claim C5, amended. In the call without prompts, with a login host resolved, the sizing
  step stops the command unless the three counts are at least 1 and the wall time is not
  empty; the format of the wall time is not tested. When it stops, the message shown names
  the first of the four values that fails, nothing else of the state changes (no file is
  written, the configuration pointer is as it was) and no command is built. When the
  four values pass, the command is built and, where it is not empty and the file can be
  written, the file is written.
\<close>

theorem noninteractive_sizing_guard:
  assumes "hosts \<noteq> []" and "hosts ! 0 \<noteq> []"
  shows "(sizingError (defaultNodes cfg) (defaultTasksPerNode cfg) (defaultCpusPerTask cfg)
            (defaultTime cfg) = None \<longleftrightarrow>
          1 \<le> defaultNodes cfg \<and> 1 \<le> defaultTasksPerNode cfg \<and>
          1 \<le> defaultCpusPerTask cfg \<and> defaultTime cfg \<noteq> []) \<and>
         (\<forall>msg. sizingError (defaultNodes cfg) (defaultTasksPerNode cfg) (defaultCpusPerTask cfg)
                  (defaultTime cfg) = Some msg \<longrightarrow>
            connectCommand env now hosts connectOk cfg w =
              (Stopped, w\<lparr> shown := shown w @ [msg] \<rparr>) \<and>
            ((defaultNodes cfg < 1 \<and>
                msg = ''Default nodes is not set. Fill it in the side panel or settings.'') \<or>
             (1 \<le> defaultNodes cfg \<and> defaultTasksPerNode cfg < 1 \<and>
                msg = ''Default tasks per node is not set. Fill it in the side panel or settings.'') \<or>
             (1 \<le> defaultNodes cfg \<and> 1 \<le> defaultTasksPerNode cfg \<and>
                defaultCpusPerTask cfg < 1 \<and>
                msg = ''Default CPUs per task is not set. Fill it in the side panel or settings.'') \<or>
             (1 \<le> defaultNodes cfg \<and> 1 \<le> defaultTasksPerNode cfg \<and>
                1 \<le> defaultCpusPerTask cfg \<and> defaultTime cfg = [] \<and>
                msg = ''Default wall time is not set. Fill it in the side panel or settings.''))) \<and>
         (\<forall>cmd. sizingError (defaultNodes cfg) (defaultTasksPerNode cfg) (defaultCpusPerTask cfg)
                  (defaultTime cfg) = None \<and>
                launchCommand cfg
                  \<lparr> partition = (if defaultPartitionName cfg \<noteq> []
                                  then Some (defaultPartitionName cfg) else None),
                    nodesArg = defaultNodes cfg, tasksPerNode = defaultTasksPerNode cfg,
                    cpusPerTask = defaultCpusPerTask cfg, time = defaultTime cfg,
                    memoryMb = Some (defaultMemoryMb cfg), gpuType = Some (defaultGpuType cfg),
                    gpuCount = Some (defaultGpuCount cfg), qos = None, account = None \<rparr> [] = cmd \<and>
                cmd \<noteq> [] \<and>
                pathDirname env (overlayPath env cfg) \<notin> denied (fileSystem w) \<and>
                overlayPath env cfg \<notin> denied (fileSystem w) \<longrightarrow>
            fst (connectCommand env now hosts connectOk cfg w) = Created cmd (overlayPath env cfg))"
proof (intro conjI allI impI)
  show "sizingError (defaultNodes cfg) (defaultTasksPerNode cfg) (defaultCpusPerTask cfg)
            (defaultTime cfg) = None \<longleftrightarrow>
          1 \<le> defaultNodes cfg \<and> 1 \<le> defaultTasksPerNode cfg \<and>
          1 \<le> defaultCpusPerTask cfg \<and> defaultTime cfg \<noteq> []"
    by (rule sizingError_None_iff)
next
  fix msg
  assume m: "sizingError (defaultNodes cfg) (defaultTasksPerNode cfg) (defaultCpusPerTask cfg)
                  (defaultTime cfg) = Some msg"
  show "connectCommand env now hosts connectOk cfg w = (Stopped, w\<lparr> shown := shown w @ [msg] \<rparr>)"
    by (rule connectCommand_sizing_stop[OF assms m])
  show "(defaultNodes cfg < 1 \<and>
                msg = ''Default nodes is not set. Fill it in the side panel or settings.'') \<or>
             (1 \<le> defaultNodes cfg \<and> defaultTasksPerNode cfg < 1 \<and>
                msg = ''Default tasks per node is not set. Fill it in the side panel or settings.'') \<or>
             (1 \<le> defaultNodes cfg \<and> 1 \<le> defaultTasksPerNode cfg \<and>
                defaultCpusPerTask cfg < 1 \<and>
                msg = ''Default CPUs per task is not set. Fill it in the side panel or settings.'') \<or>
             (1 \<le> defaultNodes cfg \<and> 1 \<le> defaultTasksPerNode cfg \<and>
                1 \<le> defaultCpusPerTask cfg \<and> defaultTime cfg = [] \<and>
                msg = ''Default wall time is not set. Fill it in the side panel or settings.'')"
    by (rule sizingError_messages[OF m])
next
  fix cmd
  assume a: "sizingError (defaultNodes cfg) (defaultTasksPerNode cfg) (defaultCpusPerTask cfg)
                  (defaultTime cfg) = None \<and>
                launchCommand cfg
                  \<lparr> partition = (if defaultPartitionName cfg \<noteq> []
                                  then Some (defaultPartitionName cfg) else None),
                    nodesArg = defaultNodes cfg, tasksPerNode = defaultTasksPerNode cfg,
                    cpusPerTask = defaultCpusPerTask cfg, time = defaultTime cfg,
                    memoryMb = Some (defaultMemoryMb cfg), gpuType = Some (defaultGpuType cfg),
                    gpuCount = Some (defaultGpuCount cfg), qos = None, account = None \<rparr> [] = cmd \<and>
                cmd \<noteq> [] \<and>
                pathDirname env (overlayPath env cfg) \<notin> denied (fileSystem w) \<and>
                overlayPath env cfg \<notin> denied (fileSystem w)"
  show "fst (connectCommand env now hosts connectOk cfg w) = Created cmd (overlayPath env cfg)"
    by (rule connectCommand_proceeds[OF assms a[THEN conjunct1] a[THEN conjunct2, THEN conjunct1]
          a[THEN conjunct2, THEN conjunct2, THEN conjunct1]
          a[THEN conjunct2, THEN conjunct2, THEN conjunct2, THEN conjunct1]
          a[THEN conjunct2, THEN conjunct2, THEN conjunct2, THEN conjunct2]])
qed

text \<open>
  The configuration with no setting set has no wall time: the call without prompts stops
  with the message that names it, and the state is otherwise as it was.
\<close>

theorem noninteractive_sizing_guard_witness:
  "connectCommand exampleEnv ''2024-01-01T00:00:00.000Z'' [''login1.example.org''] True
     defaultConfig emptyWorld =
   (Stopped,
    emptyWorld\<lparr> shown := [''Default wall time is not set. Fill it in the side panel or settings.''] \<rparr>)"
proof -
  have h: "[''login1.example.org''] \<noteq> []" "[''login1.example.org''] ! 0 \<noteq> []" by simp_all
  have m: "sizingError (defaultNodes defaultConfig) (defaultTasksPerNode defaultConfig)
             (defaultCpusPerTask defaultConfig) (defaultTime defaultConfig) =
           Some ''Default wall time is not set. Fill it in the side panel or settings.''"
    by (simp add: sizingError_def defaultConfig_def)
  have e: "shown emptyWorld = []" by (simp add: emptyWorld_def)
  from noninteractive_sizing_guard[OF h, of defaultConfig exampleEnv "''2024-01-01T00:00:00.000Z''"
      True emptyWorld] m
  have "connectCommand exampleEnv ''2024-01-01T00:00:00.000Z'' [''login1.example.org''] True
     defaultConfig emptyWorld =
   (Stopped, emptyWorld\<lparr> shown := shown emptyWorld @
      [''Default wall time is not set. Fill it in the side panel or settings.''] \<rparr>)"
    by blast
  then show ?thesis unfolding e by simp
qed

end
